theory Spec2Isabelle
  imports Main "HOL-Library.Sublist"
begin

section \<open>Errors and outcomes\<close>

text \<open>
  The Go code builds its errors in three ways: it passes on an error value that a library
  returned (resty, encoding/json, encoding/base64, the AWS SDK, the auth package), it
  formats a new one with \<^verbatim>\<open>fmt.Errorf\<close> (wrapping a cause when the format has
  \<^verbatim>\<open>%w\<close>), or it creates one with \<^verbatim>\<open>errors.New\<close>. A library error is
  known here by its message text only.
\<close>

datatype error =
    LibError string
  | Errorf string "error option"
  | ErrorsNew string

fun Error :: "error \<Rightarrow> string" where
  "Error (LibError m) = m"
| "Error (Errorf m cause) = m"
| "Error (ErrorsNew m) = m"

fun Unwrap :: "error \<Rightarrow> error option" where
  "Unwrap (Errorf m cause) = cause"
| "Unwrap e = None"

text \<open>
  A Go call either returns its results or panics. A function declared
  \<^verbatim>\<open>(*T, error)\<close> returns a pair of a pointer (\<open>None\<close> is \<^verbatim>\<open>nil\<close>) and an
  error (\<open>None\<close> is \<^verbatim>\<open>nil\<close>).
\<close>

datatype 'a outcome = Panic string | Return 'a

definition nil_dereference :: string where
  "nil_dereference = ''runtime error: invalid memory address or nil pointer dereference''"

subsection \<open>Formatting of integers (the \<^verbatim>\<open>%d\<close> verb)\<close>

fun digits :: "nat \<Rightarrow> string" where
  "digits n =
     (if n < 10 then [''0123456789'' ! n]
      else digits (n div 10) @ [''0123456789'' ! (n mod 10)])"

declare digits.simps [simp del]

definition format_d :: "int \<Rightarrow> string" where
  "format_d i = (if i < 0 then ''-'' @ digits (nat (- i)) else digits (nat i))"

section \<open>Data model (package envapi)\<close>

record TokenSet =
  AccessToken :: string

record resty_Client =
  AuthToken :: string
  BaseURL :: string

record resty_Response =
  StatusCode :: int
  Body :: string
  String :: string

record TargetEnvironment =
  TokenSet :: TokenSet
  StackApiBaseURL :: string
  HumanId :: string
  Resty :: resty_Client

record KubeConfigClusterData =
  CertificateAuthorityData :: string
  Server :: string

record KubeConfigCluster =
  cluster_Cluster :: KubeConfigClusterData
  cluster_Name :: string

record KubeConfigContextData =
  context_data_Cluster :: string
  context_data_User :: string
  context_data_Namespace :: string

record KubeConfigContext =
  context_Context :: KubeConfigContextData
  context_Name :: string

record KubeConfigUserDataExec =
  Command :: string
  Args :: "string list"
  exec_ApiVersion :: string
  InteractiveMode :: string

record KubeConfigUserData =
  Token :: string
  Exec :: KubeConfigUserDataExec

record KubeConfigUser =
  user_Name :: string
  user_User :: KubeConfigUserData

record KubeConfig =
  ApiVersion :: string
  Clusters :: "KubeConfigCluster list"
  Contexts :: "KubeConfigContext list"
  CurrentContext :: string
  Kind :: string
  Preferences :: "(string \<times> string) list"
  Users :: "KubeConfigUser list"

text \<open>
  The exec-credential envelope. \<^verbatim>\<open>ExecCredentialSpec\<close> and
  \<^verbatim>\<open>ExecCredentialStatus\<close> are types of client-go; of the spec, the code reads
  \<^verbatim>\<open>Spec.Cluster.CertificateAuthorityData\<close> (a byte slice) and
  \<^verbatim>\<open>Spec.Cluster.Server\<close>, where \<^verbatim>\<open>Cluster\<close> is a pointer in client-go
  (\<open>None\<close> when the payload has no cluster). The status is opaque to this code.
\<close>

record ExecCredentialCluster =
  spec_cluster_CertificateAuthorityData :: string
  spec_cluster_Server :: string

record ExecCredentialSpec =
  spec_Cluster :: "ExecCredentialCluster option"

record KubeExecCredential =
  cred_ApiVersion :: string
  cred_Kind :: string
  cred_Spec :: ExecCredentialSpec
  cred_Status :: string

record AWSCredentials =
  AccessKeyId :: string
  SecretAccessKey :: string
  SessionToken :: string
  Expiration :: string

record DockerCredentials =
  Username :: string
  Password :: string
  RegistryURL :: string

text \<open>
  Modelled from the spec: the declaration of \<^verbatim>\<open>EnvironmentDetails\<close> (package envapi)
  is not among the source files. The spec gives it the server hostname, the Kubernetes
  namespace and the cloud region of a deployment; the code reads them as
  \<^verbatim>\<open>Deployment.ServerHostname\<close>, \<^verbatim>\<open>Deployment.KubernetesNamespace\<close> and
  \<^verbatim>\<open>Deployment.AwsRegion\<close>.
\<close>

record DeploymentDetails =
  ServerHostname :: string
  KubernetesNamespace :: string
  AwsRegion :: string

record EnvironmentDetails =
  Deployment :: DeploymentDetails

text \<open>
  Modelled from the spec: the identity returned by \<^verbatim>\<open>auth.FetchUserInfo\<close> (package
  auth, not among the source files) yields at least an email address.
\<close>

record UserInfo =
  Email :: string

text \<open>The result of the registry's \<^verbatim>\<open>GetAuthorizationToken\<close>; both fields are pointers.\<close>

record AuthorizationData =
  AuthorizationToken :: "string option"
  ProxyEndpoint :: "string option"

record GetAuthorizationTokenOutput =
  AuthorizationDataList :: "AuthorizationData list"

record aws_Credentials =
  aws_AccessKeyID :: string
  aws_SecretAccessKey :: string
  aws_SessionToken :: string

section \<open>Recorded effects\<close>

text \<open>
  What a call does to the outside world is appended to a list of events: the HTTP requests
  sent, the identity lookups, the calls to the cloud SDK, the documents handed to the YAML
  encoder, and the log lines written.
\<close>

datatype event =
    HttpCall string string "string option"
  | FetchUserInfoCall string
  | LoadDefaultConfigCall string
  | GetAuthorizationTokenCall string
  | MarshalCall KubeConfig
  | Log string string

fun is_Log :: "event \<Rightarrow> bool" where
  "is_Log (Log level msg) = True"
| "is_Log e = False"

definition calls :: "event list \<Rightarrow> event list" where
  "calls tr = filter (\<lambda>e. \<not> is_Log e) tr"

section \<open>The outside world\<close>

text \<open>
  Everything the code calls and does not define is a parameter: the network behind the
  resty client, the JSON decoder at each response type, the YAML and base64 codecs, the
  identity provider and the cloud SDK. A failing call gives the text of its error.

  \<^verbatim>\<open>json.Unmarshal(rawBody, &result)\<close> is given what it leaves in \<open>result\<close> and the
  error, if any. In \<open>httpRequest\<close> the target is a pointer to the pointer \<open>result\<close>, so
  the decoder may leave \<^verbatim>\<open>nil\<close> there (\<open>None\<close>), as it does for the JSON value
  \<^verbatim>\<open>null\<close>.
\<close>

record world =
  resty_execute :: "resty_Client \<Rightarrow> string \<Rightarrow> string \<Rightarrow> string option \<Rightarrow> string + resty_Response"
  Unmarshal_KubeExecCredential :: "string \<Rightarrow> KubeExecCredential option \<times> string option"
  Unmarshal_EnvironmentDetails :: "string \<Rightarrow> EnvironmentDetails option \<times> string option"
  Unmarshal_AWSCredentials :: "string \<Rightarrow> AWSCredentials option \<times> string option"
  FetchUserInfo :: "TokenSet \<Rightarrow> string + UserInfo"
  yaml_Marshal :: "KubeConfig \<Rightarrow> string \<times> string option"
  base64_EncodeToString :: "string \<Rightarrow> string"
  base64_DecodeString :: "string \<Rightarrow> string + string"
  LoadDefaultConfig :: "string \<Rightarrow> aws_Credentials \<Rightarrow> string option"
  GetAuthorizationToken :: "string \<Rightarrow> aws_Credentials \<Rightarrow> string + GetAuthorizationTokenOutput"

text \<open>
  The type parameter \<^verbatim>\<open>TResponse\<close>: either it is \<^verbatim>\<open>string\<close>, and the value is the
  conversion of the response text to it (the identity), or it is a structured type, and
  the value is its JSON decoder.
\<close>

datatype ('a, 'r) TResponse =
    IsString "string \<Rightarrow> 'a"
  | IsStruct "string \<Rightarrow> 'r \<times> string option"

definition MethodGet :: string where "MethodGet = ''GET''"
definition MethodPost :: string where "MethodPost = ''POST''"
definition MethodPut :: string where "MethodPut = ''PUT''"
definition StatusOK :: int where "StatusOK = 200"
definition StatusMultipleChoices :: int where "StatusMultipleChoices = 300"

section \<open>The request executor of package envapi\<close>

definition httpRequest ::
  "world \<Rightarrow> ('a, 'a option) TResponse \<Rightarrow> resty_Client \<Rightarrow> string \<Rightarrow> string \<Rightarrow> string option
     \<Rightarrow> event list \<Rightarrow> ('a option \<times> error option) outcome \<times> event list" where
  "httpRequest w T client method path body tr =
    (let sent =
       (if method = MethodGet then Some (None, resty_execute w client MethodGet path None)
        else if method = MethodPost then Some (body, resty_execute w client MethodPost path body)
        else None)
     in case sent of
       None \<Rightarrow>
         (Panic ''HTTP request method not implemented'',
          tr @ [Log ''panic'' ''HTTP request method not implemented''])
     | Some (sentBody, r) \<Rightarrow>
         (let tr1 = tr @ [HttpCall method path sentBody] in
          case r of
            Inl err \<Rightarrow>
              (Return (None, Some (Errorf (method @ '' request to '' @ path @ '' failed: '' @ err)
                                      (Some (LibError err)))), tr1)
          | Inr response \<Rightarrow>
              if StatusCode response < StatusOK \<or> StatusCode response \<ge> StatusMultipleChoices then
                (Return (None, Some (Errorf (method @ '' request to '' @ path
                                        @ '' failed with status code '' @ format_d (StatusCode response))
                                      None)), tr1)
              else
                (case T of
                   IsString cast \<Rightarrow> (Return (Some (cast (String response)), None), tr1)
                 | IsStruct Unmarshal \<Rightarrow>
                     (let rawBody = Body response in
                      case Unmarshal rawBody of
                        (result, Some err) \<Rightarrow>
                          (Return (None, Some (LibError err)),
                           tr1 @ [Log ''error'' (''Failed to unmarshal response: '' @ err
                                                  @ '', raw body: '' @ rawBody)])
                      | (result, None) \<Rightarrow> (Return (result, None), tr1)))))"

definition httpGetRequest ::
  "world \<Rightarrow> ('a, 'a option) TResponse \<Rightarrow> resty_Client \<Rightarrow> string
     \<Rightarrow> event list \<Rightarrow> ('a option \<times> error option) outcome \<times> event list" where
  "httpGetRequest w T client path tr = httpRequest w T client MethodGet path None tr"

definition httpPostRequest ::
  "world \<Rightarrow> ('a, 'a option) TResponse \<Rightarrow> resty_Client \<Rightarrow> string \<Rightarrow> string option
     \<Rightarrow> event list \<Rightarrow> ('a option \<times> error option) outcome \<times> event list" where
  "httpPostRequest w T client path body tr = httpRequest w T client MethodPost path body tr"

section \<open>The environment credential broker\<close>

definition GetDetails ::
  "world \<Rightarrow> TargetEnvironment \<Rightarrow> event list
     \<Rightarrow> (EnvironmentDetails option \<times> error option) outcome \<times> event list" where
  "GetDetails w target tr =
    (let path = ''/v0/deployments/'' @ HumanId target
     in httpGetRequest w (IsStruct (Unmarshal_EnvironmentDetails w)) (Resty target) path tr)"

definition GetAWSCredentials ::
  "world \<Rightarrow> TargetEnvironment \<Rightarrow> event list
     \<Rightarrow> (AWSCredentials option \<times> error option) outcome \<times> event list" where
  "GetAWSCredentials w target tr =
    (let path = ''/v0/credentials/'' @ HumanId target @ ''/aws'' in
     case httpPostRequest w (IsStruct (Unmarshal_AWSCredentials w)) (Resty target) path None tr of
       (Panic p, tr1) \<Rightarrow> (Panic p, tr1)
     | (Return (awsCredentials, err), tr1) \<Rightarrow>
         (case awsCredentials of
            None \<Rightarrow> (Panic nil_dereference, tr1)
          | Some c \<Rightarrow>
              if AccessKeyId c = '''' then
                (Return (None, Some (Errorf ''AWS credentials missing AccessKeyId'' None)), tr1)
              else if SecretAccessKey c = '''' then
                (Return (None, Some (Errorf ''AWS credential missing SecretAccessKey'' None)), tr1)
              else (Return (Some c, err), tr1)))"

definition GetKubeConfigWithEmbeddedCredentials ::
  "world \<Rightarrow> TargetEnvironment \<Rightarrow> event list
     \<Rightarrow> (string option \<times> error option) outcome \<times> event list" where
  "GetKubeConfigWithEmbeddedCredentials w target tr =
    (let tr0 = tr @ [Log ''debug'' ''Fetching kubeconfig with embedded secret''];
         path = ''/v0/credentials/'' @ HumanId target @ ''/k8s''
     in httpPostRequest w (IsString (\<lambda>s. s)) (Resty target) path None tr0)"

definition GetKubeExecCredential ::
  "world \<Rightarrow> TargetEnvironment \<Rightarrow> event list
     \<Rightarrow> (string option \<times> error option) outcome \<times> event list" where
  "GetKubeExecCredential w target tr =
    (let path = ''/v0/credentials/'' @ HumanId target @ ''/k8s?type=execcredential''
     in httpPostRequest w (IsString (\<lambda>s. s)) (Resty target) path None tr)"

definition GetKubeConfigWithExecCredential ::
  "world \<Rightarrow> TargetEnvironment \<Rightarrow> event list
     \<Rightarrow> (string option \<times> error option) outcome \<times> event list" where
  "GetKubeConfigWithExecCredential w target tr =
    (let path = ''/v0/credentials/'' @ HumanId target @ ''/k8s?type=execcredential'';
         tr0 = tr @ [Log ''debug'' (''Getting Kubernetes KubeConfig with execcredential from ''
                                      @ BaseURL (Resty target) @ path @ ''...'')]
     in
     case httpPostRequest w (IsStruct (Unmarshal_KubeExecCredential w)) (Resty target) path None tr0 of
       (Panic p, tr1) \<Rightarrow> (Panic p, tr1)
     | (Return (credentials, err), tr1) \<Rightarrow>
     (case err of
        Some e \<Rightarrow> (Return (None, Some e), tr1)
      | None \<Rightarrow>
     (case credentials of
        None \<Rightarrow> (Panic nil_dereference, tr1)
      | Some credentials \<Rightarrow>
     (case spec_Cluster (cred_Spec credentials) of
        None \<Rightarrow> (Panic nil_dereference, tr1)
      | Some cluster \<Rightarrow>
     if spec_cluster_CertificateAuthorityData cluster = '''' \<and> spec_cluster_Server cluster = '''' then
       (Return (None, Some (Errorf ''Received kubeExecCredential with missing spec.cluster'' None)), tr1)
     else
     (case GetDetails w target tr1 of
        (Panic p, tr2) \<Rightarrow> (Panic p, tr2)
      | (Return (environment, err), tr2) \<Rightarrow>
     (case err of
        Some e \<Rightarrow> (Return (None, Some e), tr2)
      | None \<Rightarrow>
     (case environment of
        None \<Rightarrow> (Panic nil_dereference, tr2)
      | Some environment \<Rightarrow>
     if KubernetesNamespace (Deployment environment) = '''' then
       (Return (None, Some (Errorf ''Environment details did not contain a valid Kubernetes namespace''
                                   None)), tr2)
     else
     (let tr3 = tr2 @ [FetchUserInfoCall (AccessToken (TokenSet target))] in
      case FetchUserInfo w (TokenSet target) of
        Inl e \<Rightarrow>
          (Return (None, Some (Errorf (''Failed to fetch userinfo: '' @ e) (Some (LibError e)))), tr3)
      | Inr userinfo \<Rightarrow>
     (let document =
            \<lparr> ApiVersion = ''v1'',
              Clusters =
                [\<lparr> cluster_Cluster =
                     \<lparr> CertificateAuthorityData =
                         base64_EncodeToString w (spec_cluster_CertificateAuthorityData cluster),
                       Server = spec_cluster_Server cluster \<rparr>,
                   cluster_Name = spec_cluster_Server cluster \<rparr>],
              Contexts =
                [\<lparr> context_Context =
                     \<lparr> context_data_Cluster = spec_cluster_Server cluster,
                       context_data_User = Email userinfo,
                       context_data_Namespace = KubernetesNamespace (Deployment environment) \<rparr>,
                   context_Name = HumanId target \<rparr>],
              CurrentContext = HumanId target,
              Kind = ''Config'',
              Preferences = [],
              Users =
                [\<lparr> user_Name = Email userinfo,
                   user_User =
                     \<lparr> Token = '''',
                       Exec =
                         \<lparr> Command = ''metaplay'',
                           Args =
                             [''environment'',
                              ''get-kubernetes-execcredential'',
                              ''--stack-api'',
                              StackApiBaseURL target,
                              ''--environment'',
                              HumanId target],
                           exec_ApiVersion = ''client.authentication.k8s.io/v1beta1'',
                           InteractiveMode = ''Never'' \<rparr> \<rparr> \<rparr>] \<rparr>;
          tr4 = tr3 @ [MarshalCall document];
          (kubeConfig, err) = yaml_Marshal w document;
          dump = kubeConfig
      in (Return (Some dump, None), tr4))))))))))"

subsection \<open>Registry credentials\<close>

text \<open>
  \<^verbatim>\<open>strings.SplitN(s, sep, n)\<close> for a separator of one byte: no pieces for \<open>n = 0\<close>,
  every piece for \<open>n < 0\<close>, and otherwise at most \<open>n\<close> pieces, the last one being the
  unsplit remainder. \<open>genSplit sep k acc s\<close> cuts \<open>s\<close> at no more than \<open>k\<close> separators,
  \<open>acc\<close> being the piece read so far.
\<close>

fun genSplit :: "char \<Rightarrow> nat \<Rightarrow> string \<Rightarrow> string \<Rightarrow> string list" where
  "genSplit sep k acc [] = [acc]"
| "genSplit sep 0 acc (c # cs) = [acc @ c # cs]"
| "genSplit sep (Suc k) acc (c # cs) =
     (if c = sep then acc # genSplit sep k [] cs else genSplit sep (Suc k) (acc @ [c]) cs)"

definition SplitN :: "string \<Rightarrow> char \<Rightarrow> int \<Rightarrow> string list" where
  "SplitN s sep n =
     (if n = 0 then []
      else if n < 0 then genSplit sep (length s) [] s
      else genSplit sep (nat n - 1) [] s)"

definition GetDockerCredentials ::
  "world \<Rightarrow> TargetEnvironment \<Rightarrow> EnvironmentDetails option \<Rightarrow> event list
     \<Rightarrow> (DockerCredentials option \<times> error option) outcome \<times> event list" where
  "GetDockerCredentials w target envDetails tr =
    (let tr0 = tr @ [Log ''debug'' ''Get AWS credentials''] in
     case GetAWSCredentials w target tr0 of
       (Panic p, tr1) \<Rightarrow> (Panic p, tr1)
     | (Return (awsCredentials, err), tr1) \<Rightarrow>
     (case err of
        Some e \<Rightarrow>
          (Return (None, Some (Errorf (''failed to get AWS credentials: '' @ Error e) None)), tr1)
      | None \<Rightarrow>
     (let tr2 = tr1 @ [Log ''debug'' ''Create AWS config''] in
      case envDetails of
        None \<Rightarrow> (Panic nil_dereference, tr2)
      | Some details \<Rightarrow>
     (case awsCredentials of
        None \<Rightarrow> (Panic nil_dereference, tr2)
      | Some c \<Rightarrow>
     (let region = AwsRegion (Deployment details);
          provider = \<lparr> aws_AccessKeyID = AccessKeyId c,
                       aws_SecretAccessKey = SecretAccessKey c,
                       aws_SessionToken = SessionToken c \<rparr>;
          tr3 = tr2 @ [LoadDefaultConfigCall region]
      in
      case LoadDefaultConfig w region provider of
        Some e \<Rightarrow> (Return (None, Some (LibError e)), tr3)
      | None \<Rightarrow>
     (let tr4 = tr3 @ [Log ''debug'' ''Create ECR client'',
                       Log ''debug'' ''Fetch ECR login credentials from AWS'',
                       GetAuthorizationTokenCall region]
      in
      case GetAuthorizationToken w region provider of
        Inl e \<Rightarrow> (Return (None, Some (LibError e)), tr4)
      | Inr response \<Rightarrow>
     if length (AuthorizationDataList response) = 0
        \<or> AuthorizationToken (AuthorizationDataList response ! 0) = None
        \<or> ProxyEndpoint (AuthorizationDataList response ! 0) = None then
       (Return (None, Some (ErrorsNew ''received an empty authorization token response for ECR repository'')),
        tr4)
     else
     (let tr5 = tr4 @ [Log ''debug'' ''Parse ECR response''];
          registryURL = the (ProxyEndpoint (AuthorizationDataList response ! 0));
          authorization64 = the (AuthorizationToken (AuthorizationDataList response ! 0))
      in
      case base64_DecodeString w authorization64 of
        Inl e \<Rightarrow> (Return (None, Some (LibError e)), tr5)
      | Inr decoded \<Rightarrow>
     (let authorization = decoded;
          parts = SplitN authorization (CHR '':'') 2
      in
      if length parts \<noteq> 2 then
        (Return (None, Some (ErrorsNew ''failed to parse authorization token'')), tr5)
      else
     (let username = parts ! 0;
          password = parts ! 1;
          tr6 = tr5 @ [Log ''debug'' (''ECR: username='' @ username @ '', proxyEndpoint='' @ registryURL)]
      in (Return (Some \<lparr> Username = username, Password = password, RegistryURL = registryURL \<rparr>,
                  None), tr6))))))))))"

section \<open>The request executor of package metahttp\<close>

record metahttp_Client =
  client_TokenSet :: TokenSet
  client_BaseURL :: string
  client_Resty :: resty_Client

text \<open>
  \<open>Request\<close> returns a value, not a pointer: \<open>zero\<close> is the zero value of
  \<^verbatim>\<open>TResponse\<close>, returned beside every error raised before decoding. The decoder
  writes into \<open>result\<close> directly, and what it left there is returned beside its error.
\<close>

definition Request ::
  "world \<Rightarrow> ('a, 'a) TResponse \<Rightarrow> 'a \<Rightarrow> metahttp_Client \<Rightarrow> string \<Rightarrow> string \<Rightarrow> string option
     \<Rightarrow> event list \<Rightarrow> ('a \<times> error option) outcome \<times> event list" where
  "Request w T zero c method url body tr =
    (let result = zero;
         sent =
       (if method = MethodGet then Some (None, resty_execute w (client_Resty c) MethodGet url None)
        else if method = MethodPost then Some (body, resty_execute w (client_Resty c) MethodPost url body)
        else if method = MethodPut then Some (body, resty_execute w (client_Resty c) MethodPut url body)
        else None)
     in case sent of
       None \<Rightarrow>
         (Panic (''HTTP request method '' @ [CHR 0x27] @ method @ [CHR 0x27] @ '' not implemented''),
          tr @ [Log ''panic'' (''HTTP request method '' @ [CHR 0x27] @ method @ [CHR 0x27]
                                @ '' not implemented'')])
     | Some (sentBody, r) \<Rightarrow>
         (let tr1 = tr @ [HttpCall method url sentBody] in
          case r of
            Inl err \<Rightarrow>
              (Return (result, Some (Errorf (method @ '' request to '' @ client_BaseURL c @ url
                                              @ '' failed: '' @ err)
                                        (Some (LibError err)))), tr1)
          | Inr response \<Rightarrow>
              if StatusCode response < StatusOK \<or> StatusCode response \<ge> StatusMultipleChoices then
                (Return (result, Some (Errorf (method @ '' request to '' @ client_BaseURL c @ url
                                          @ '' failed with status code '' @ format_d (StatusCode response))
                                        None)), tr1)
              else
                (case T of
                   IsString cast \<Rightarrow> (Return (cast (String response), None), tr1)
                 | IsStruct Unmarshal \<Rightarrow>
                     (let rawBody = Body response in
                      case Unmarshal rawBody of
                        (result, Some err) \<Rightarrow>
                          (Return (result, Some (LibError err)),
                           tr1 @ [Log ''error'' (''Failed to unmarshal response: '' @ err
                                                  @ '', raw body: '' @ rawBody)])
                      | (result, None) \<Rightarrow> (Return (result, None), tr1)))))"

definition Get ::
  "world \<Rightarrow> ('a, 'a) TResponse \<Rightarrow> 'a \<Rightarrow> metahttp_Client \<Rightarrow> string
     \<Rightarrow> event list \<Rightarrow> ('a \<times> error option) outcome \<times> event list" where
  "Get w T zero c url tr = Request w T zero c MethodGet url None tr"

definition Post ::
  "world \<Rightarrow> ('a, 'a) TResponse \<Rightarrow> 'a \<Rightarrow> metahttp_Client \<Rightarrow> string \<Rightarrow> string option
     \<Rightarrow> event list \<Rightarrow> ('a \<times> error option) outcome \<times> event list" where
  "Post w T zero c url body tr = Request w T zero c MethodPost url body tr"

definition Put ::
  "world \<Rightarrow> ('a, 'a) TResponse \<Rightarrow> 'a \<Rightarrow> metahttp_Client \<Rightarrow> string \<Rightarrow> string option
     \<Rightarrow> event list \<Rightarrow> ('a \<times> error option) outcome \<times> event list" where
  "Put w T zero c url body tr = Request w T zero c MethodPut url body tr"

section \<open>Concrete worlds for evaluation\<close>

text \<open>
  A server that answers from a table of routes and refuses the connection elsewhere,
  decoders that answer from a table of bodies, and a deployment \<open>tiny-squids\<close> on
  which every step of the broker succeeds.
\<close>

definition scripted_server ::
  "((string \<times> string) \<times> (int \<times> string)) list
     \<Rightarrow> resty_Client \<Rightarrow> string \<Rightarrow> string \<Rightarrow> string option \<Rightarrow> string + resty_Response" where
  "scripted_server routes client method path body =
     (case map_of routes (method, path) of
        None \<Rightarrow> Inl ''connection refused''
      | Some (status, text) \<Rightarrow> Inr \<lparr> StatusCode = status, Body = text, String = text \<rparr>)"

definition decode_table :: "(string \<times> 'a) list \<Rightarrow> string \<Rightarrow> 'a option \<times> string option" where
  "decode_table table body =
     (case map_of table body of
        None \<Rightarrow> (None, Some ''unexpected end of JSON input'')
      | Some v \<Rightarrow> (Some v, None))"

text \<open>
  A text codec for kubeconfig documents, standing for YAML in evaluations: a string is
  written as its length in unary (\<open>1\<close>s closed by a \<open>0\<close>) followed by its bytes, a list as
  its length in unary followed by its elements, and a record as its fields in order. The
  decoder reads the same format and rejects a text with bytes left over.
\<close>

definition put_string :: "string \<Rightarrow> string" where
  "put_string s = replicate (length s) (CHR ''1'') @ CHR ''0'' # s"

definition get_string :: "string \<Rightarrow> (string \<times> string) option" where
  "get_string text =
     (let n = length (takeWhile (\<lambda>c. c = CHR ''1'') text);
          body = drop (Suc n) text
      in if n < length text \<and> n \<le> length body then Some (take n body, drop n body) else None)"

definition put_list :: "('a \<Rightarrow> string) \<Rightarrow> 'a list \<Rightarrow> string" where
  "put_list put xs = replicate (length xs) (CHR ''1'') @ CHR ''0'' # concat (map put xs)"

fun get_items :: "nat \<Rightarrow> (string \<Rightarrow> ('a \<times> string) option) \<Rightarrow> string \<Rightarrow> ('a list \<times> string) option" where
  "get_items 0 get text = Some ([], text)"
| "get_items (Suc n) get text =
     (case get text of
        None \<Rightarrow> None
      | Some (x, rest) \<Rightarrow>
          (case get_items n get rest of
             None \<Rightarrow> None
           | Some (xs, rest') \<Rightarrow> Some (x # xs, rest')))"

definition get_list :: "(string \<Rightarrow> ('a \<times> string) option) \<Rightarrow> string \<Rightarrow> ('a list \<times> string) option" where
  "get_list get text =
     (let n = length (takeWhile (\<lambda>c. c = CHR ''1'') text)
      in if n < length text then get_items n get (drop (Suc n) text) else None)"

definition put_cluster :: "KubeConfigCluster \<Rightarrow> string" where
  "put_cluster c =
     put_string (CertificateAuthorityData (cluster_Cluster c))
     @ put_string (Server (cluster_Cluster c))
     @ put_string (cluster_Name c)"

definition get_cluster :: "string \<Rightarrow> (KubeConfigCluster \<times> string) option" where
  "get_cluster text =
     Option.bind (get_string text) (\<lambda>(ca, t1).
     Option.bind (get_string t1) (\<lambda>(server, t2).
     Option.bind (get_string t2) (\<lambda>(name, t3).
       Some (\<lparr> cluster_Cluster = \<lparr> CertificateAuthorityData = ca, Server = server \<rparr>,
               cluster_Name = name \<rparr>, t3))))"

definition put_context :: "KubeConfigContext \<Rightarrow> string" where
  "put_context c =
     put_string (context_data_Cluster (context_Context c))
     @ put_string (context_data_User (context_Context c))
     @ put_string (context_data_Namespace (context_Context c))
     @ put_string (context_Name c)"

definition get_context :: "string \<Rightarrow> (KubeConfigContext \<times> string) option" where
  "get_context text =
     Option.bind (get_string text) (\<lambda>(cluster, t1).
     Option.bind (get_string t1) (\<lambda>(user, t2).
     Option.bind (get_string t2) (\<lambda>(namespace, t3).
     Option.bind (get_string t3) (\<lambda>(name, t4).
       Some (\<lparr> context_Context =
                 \<lparr> context_data_Cluster = cluster, context_data_User = user,
                   context_data_Namespace = namespace \<rparr>,
               context_Name = name \<rparr>, t4)))))"

definition put_user :: "KubeConfigUser \<Rightarrow> string" where
  "put_user u =
     put_string (user_Name u)
     @ put_string (Token (user_User u))
     @ put_string (Command (Exec (user_User u)))
     @ put_list put_string (Args (Exec (user_User u)))
     @ put_string (exec_ApiVersion (Exec (user_User u)))
     @ put_string (InteractiveMode (Exec (user_User u)))"

definition get_user :: "string \<Rightarrow> (KubeConfigUser \<times> string) option" where
  "get_user text =
     Option.bind (get_string text) (\<lambda>(name, t1).
     Option.bind (get_string t1) (\<lambda>(token, t2).
     Option.bind (get_string t2) (\<lambda>(command, t3).
     Option.bind (get_list get_string t3) (\<lambda>(args, t4).
     Option.bind (get_string t4) (\<lambda>(version, t5).
     Option.bind (get_string t5) (\<lambda>(mode, t6).
       Some (\<lparr> user_Name = name,
               user_User =
                 \<lparr> Token = token,
                   Exec = \<lparr> Command = command, Args = args, exec_ApiVersion = version,
                            InteractiveMode = mode \<rparr> \<rparr> \<rparr>, t6)))))))"

definition put_preference :: "string \<times> string \<Rightarrow> string" where
  "put_preference p = put_string (fst p) @ put_string (snd p)"

definition get_preference :: "string \<Rightarrow> ((string \<times> string) \<times> string) option" where
  "get_preference text =
     Option.bind (get_string text) (\<lambda>(key, t1).
     Option.bind (get_string t1) (\<lambda>(val, t2). Some ((key, val), t2)))"

definition put_KubeConfig :: "KubeConfig \<Rightarrow> string" where
  "put_KubeConfig k =
     put_string (ApiVersion k)
     @ put_list put_cluster (Clusters k)
     @ put_list put_context (Contexts k)
     @ put_string (CurrentContext k)
     @ put_string (Kind k)
     @ put_list put_preference (Preferences k)
     @ put_list put_user (Users k)"

definition get_KubeConfig :: "string \<Rightarrow> (KubeConfig \<times> string) option" where
  "get_KubeConfig text =
     Option.bind (get_string text) (\<lambda>(version, t1).
     Option.bind (get_list get_cluster t1) (\<lambda>(clusters, t2).
     Option.bind (get_list get_context t2) (\<lambda>(contexts, t3).
     Option.bind (get_string t3) (\<lambda>(current, t4).
     Option.bind (get_string t4) (\<lambda>(kind, t5).
     Option.bind (get_list get_preference t5) (\<lambda>(preferences, t6).
     Option.bind (get_list get_user t6) (\<lambda>(users, t7).
       Some (\<lparr> ApiVersion = version, Clusters = clusters, Contexts = contexts,
               CurrentContext = current, Kind = kind, Preferences = preferences,
               Users = users \<rparr>, t7))))))))"

definition test_Marshal :: "KubeConfig \<Rightarrow> string \<times> string option" where
  "test_Marshal k = (put_KubeConfig k, None)"

definition test_Unmarshal :: "string \<Rightarrow> KubeConfig option" where
  "test_Unmarshal text =
     (case get_KubeConfig text of
        None \<Rightarrow> None
      | Some (k, rest) \<Rightarrow> if rest = [] then Some k else None)"

definition test_client :: resty_Client where
  "test_client = \<lparr> AuthToken = ''token'', BaseURL = ''https://infra.test/stackapi'' \<rparr>"

definition test_target :: TargetEnvironment where
  "test_target =
     \<lparr> TokenSet = \<lparr> AccessToken = ''token'' \<rparr>,
       StackApiBaseURL = ''https://infra.test/stackapi'',
       HumanId = ''tiny-squids'',
       Resty = test_client \<rparr>"

definition test_credential :: "string \<Rightarrow> string \<Rightarrow> KubeExecCredential" where
  "test_credential ca server =
     \<lparr> cred_ApiVersion = ''client.authentication.k8s.io/v1beta1'',
       cred_Kind = ''ExecCredential'',
       cred_Spec = \<lparr> spec_Cluster = Some \<lparr> spec_cluster_CertificateAuthorityData = ca,
                                            spec_cluster_Server = server \<rparr> \<rparr>,
       cred_Status = ''status'' \<rparr>"

definition test_credential_without_cluster :: KubeExecCredential where
  "test_credential_without_cluster =
     \<lparr> cred_ApiVersion = ''client.authentication.k8s.io/v1beta1'',
       cred_Kind = ''ExecCredential'',
       cred_Spec = \<lparr> spec_Cluster = None \<rparr>,
       cred_Status = ''status'' \<rparr>"

definition test_details :: "string \<Rightarrow> EnvironmentDetails" where
  "test_details namespace =
     \<lparr> Deployment = \<lparr> ServerHostname = ''tiny-squids.test'',
                      KubernetesNamespace = namespace,
                      AwsRegion = ''eu-west-1'' \<rparr> \<rparr>"

definition test_aws :: "string \<Rightarrow> string \<Rightarrow> AWSCredentials" where
  "test_aws key secret =
     \<lparr> AccessKeyId = key, SecretAccessKey = secret, SessionToken = ''session'',
       Expiration = ''2030-01-01T00:00:00Z'' \<rparr>"

definition test_routes :: "((string \<times> string) \<times> (int \<times> string)) list" where
  "test_routes =
     [((''POST'', ''/v0/credentials/tiny-squids/k8s?type=execcredential''), (200, ''credential'')),
      ((''GET'', ''/v0/deployments/tiny-squids''), (200, ''details'')),
      ((''POST'', ''/v0/credentials/tiny-squids/aws''), (200, ''aws''))]"

definition test_world :: world where
  "test_world =
     \<lparr> resty_execute = scripted_server test_routes,
       Unmarshal_KubeExecCredential =
         decode_table [(''credential'', test_credential ''CA'' ''https://k8s.test''),
                       (''credential with empty cluster'', test_credential '''' ''''),
                       (''credential without cluster'', test_credential_without_cluster)],
       Unmarshal_EnvironmentDetails =
         decode_table [(''details'', test_details ''tiny-squids-ns''),
                       (''details without namespace'', test_details '''')],
       Unmarshal_AWSCredentials =
         decode_table [(''aws'', test_aws ''AKIA'' ''secret''),
                       (''aws without secret'', test_aws ''AKIA'' ''''),
                       (''aws without key'', test_aws '''' ''secret'')],
       FetchUserInfo = (\<lambda>tokens. Inr \<lparr> Email = ''dev@test'' \<rparr>),
       yaml_Marshal = test_Marshal,
       base64_EncodeToString = (\<lambda>bytes. ''base64('' @ bytes @ '')''),
       base64_DecodeString =
         (\<lambda>text. case map_of [(''YWJjOmRlOmY='', ''abc:de:f''), (''bm9jb2xvbg=='', ''nocolon'')] text of
                   None \<Rightarrow> Inl ''illegal base64 data at input byte 0''
                 | Some bytes \<Rightarrow> Inr bytes),
       LoadDefaultConfig = (\<lambda>region provider. None),
       GetAuthorizationToken =
         (\<lambda>region provider.
            Inr \<lparr> AuthorizationDataList =
                    [\<lparr> AuthorizationToken = Some ''YWJjOmRlOmY='',
                       ProxyEndpoint = Some ''https://registry.test'' \<rparr>] \<rparr>) \<rparr>"

definition test_metahttp_client :: metahttp_Client where
  "test_metahttp_client =
     \<lparr> client_TokenSet = \<lparr> AccessToken = ''token'' \<rparr>,
       client_BaseURL = ''https://infra.test/stackapi'',
       client_Resty = test_client \<rparr>"

text \<open>The document expected for \<open>tiny-squids\<close> in \<open>test_world\<close>.\<close>

definition test_document :: KubeConfig where
  "test_document =
     \<lparr> ApiVersion = ''v1'',
       Clusters =
         [\<lparr> cluster_Cluster = \<lparr> CertificateAuthorityData = ''base64(CA)'', Server = ''https://k8s.test'' \<rparr>,
            cluster_Name = ''https://k8s.test'' \<rparr>],
       Contexts =
         [\<lparr> context_Context =
              \<lparr> context_data_Cluster = ''https://k8s.test'',
                context_data_User = ''dev@test'',
                context_data_Namespace = ''tiny-squids-ns'' \<rparr>,
            context_Name = ''tiny-squids'' \<rparr>],
       CurrentContext = ''tiny-squids'',
       Kind = ''Config'',
       Preferences = [],
       Users =
         [\<lparr> user_Name = ''dev@test'',
            user_User =
              \<lparr> Token = '''',
                Exec =
                  \<lparr> Command = ''metaplay'',
                    Args = [''environment'', ''get-kubernetes-execcredential'', ''--stack-api'',
                            ''https://infra.test/stackapi'', ''--environment'', ''tiny-squids''],
                    exec_ApiVersion = ''client.authentication.k8s.io/v1beta1'',
                    InteractiveMode = ''Never'' \<rparr> \<rparr> \<rparr>] \<rparr>"

text \<open>
  A deployment whose details arrive truncated, and a decoder of \<open>EnvironmentDetails\<close> for
  \<open>Request\<close>, which leaves the zero value in place when it fails.
\<close>

definition broken_world :: world where
  "broken_world =
     test_world\<lparr>resty_execute :=
       scripted_server [((''GET'', ''/v0/deployments/tiny-squids''), (200, ''{truncated''))]\<rparr>"

definition zero_EnvironmentDetails :: EnvironmentDetails where
  "zero_EnvironmentDetails =
     \<lparr> Deployment = \<lparr> ServerHostname = '''', KubernetesNamespace = '''', AwsRegion = '''' \<rparr> \<rparr>"

definition decode_details :: "string \<Rightarrow> EnvironmentDetails \<times> string option" where
  "decode_details body =
     (if body = ''details'' then (test_details ''tiny-squids-ns'', None)
      else (zero_EnvironmentDetails, Some ''unexpected end of JSON input''))"

section \<open>The spec's decode error\<close>

text \<open>
  Following the spec's words, not the code: a \<^verbatim>\<open>DecodeError{path, cause}\<close> is an error of
  its own that carries the path of the request and the parse error as its cause. In the
  error values the code can build, that is an error formatted by \<^verbatim>\<open>fmt.Errorf\<close> whose
  text holds the path and which wraps the cause; the parse error itself is not one.
\<close>

definition is_DecodeError :: "string \<Rightarrow> error \<Rightarrow> error \<Rightarrow> bool" where
  "is_DecodeError path cause e =
     (case e of
        Errorf text wrapped \<Rightarrow> wrapped = Some cause \<and> sublist path text
      | LibError text \<Rightarrow> False
      | ErrorsNew text \<Rightarrow> False)"

section \<open>Properties of the request executor\<close>

lemmas test_defs =
  test_world_def test_target_def test_client_def test_routes_def scripted_server_def
  decode_table_def test_credential_def test_details_def test_aws_def test_metahttp_client_def

lemmas method_defs = MethodGet_def MethodPost_def MethodPut_def

lemmas status_defs = StatusOK_def StatusMultipleChoices_def

text \<open>The outcome of a request does not depend on the events recorded before it.\<close>

lemma httpRequest_trace:
  "httpRequest w T client method path body tr =
     (fst (httpRequest w T client method path body []),
      tr @ snd (httpRequest w T client method path body []))"
  by (simp add: httpRequest_def Let_def
           split: option.splits sum.splits TResponse.splits prod.splits)

lemma httpPostRequest_transport_error:
  assumes "resty_execute w client MethodPost path body = Inl err"
  shows "httpPostRequest w T client path body tr =
           (Return (None, Some (Errorf (MethodPost @ '' request to '' @ path @ '' failed: '' @ err)
                                   (Some (LibError err)))),
            tr @ [HttpCall MethodPost path body])"
  using assms by (simp add: httpPostRequest_def httpRequest_def method_defs)

lemma httpPostRequest_status_error:
  assumes "resty_execute w client MethodPost path body = Inr response"
    and "StatusCode response < 200 \<or> 300 \<le> StatusCode response"
  shows "httpPostRequest w T client path body tr =
           (Return (None, Some (Errorf (MethodPost @ '' request to '' @ path
                                   @ '' failed with status code '' @ format_d (StatusCode response))
                                 None)),
            tr @ [HttpCall MethodPost path body])"
  using assms by (simp add: httpPostRequest_def httpRequest_def method_defs status_defs)

lemma httpPostRequest_decoded:
  assumes "resty_execute w client MethodPost path body = Inr response"
    and "200 \<le> StatusCode response" and "StatusCode response < 300"
    and "Unmarshal (Body response) = (result, None)"
  shows "httpPostRequest w (IsStruct Unmarshal) client path body tr =
           (Return (result, None), tr @ [HttpCall MethodPost path body])"
  using assms by (simp add: httpPostRequest_def httpRequest_def method_defs status_defs)

lemma httpGetRequest_decoded:
  assumes "resty_execute w client MethodGet path None = Inr response"
    and "200 \<le> StatusCode response" and "StatusCode response < 300"
    and "Unmarshal (Body response) = (result, None)"
  shows "httpGetRequest w (IsStruct Unmarshal) client path tr =
           (Return (result, None), tr @ [HttpCall MethodGet path None])"
  using assms by (simp add: httpGetRequest_def httpRequest_def method_defs status_defs)

section \<open>AWS credentials\<close>

text \<open>
  Claim C1. When the POST to \<^verbatim>\<open>/v0/credentials/{humanId}/aws\<close> fails, by a transport
  error or by a status outside [200,300), the claim has \<open>GetAWSCredentials\<close> return that
  error and no credentials. The code reads \<^verbatim>\<open>awsCredentials.AccessKeyId\<close> before it
  looks at the error, and \<^verbatim>\<open>awsCredentials\<close> is \<^verbatim>\<open>nil\<close> then: the call panics
  with a nil dereference and returns nothing, neither the error nor credentials.
\<close>

theorem GetAWSCredentials_failed_post_panics:
  assumes "resty_execute w (Resty target) MethodPost (''/v0/credentials/'' @ HumanId target @ ''/aws'') None = r"
    and "(\<exists>err. r = Inl err)
         \<or> (\<exists>response. r = Inr response \<and> (StatusCode response < 200 \<or> 300 \<le> StatusCode response))"
  shows "GetAWSCredentials w target tr =
           (Panic nil_dereference,
            tr @ [HttpCall MethodPost (''/v0/credentials/'' @ HumanId target @ ''/aws'') None])"
proof -
  consider err where "r = Inl err"
    | response where "r = Inr response" and "StatusCode response < 200 \<or> 300 \<le> StatusCode response"
    using assms(2) by blast
  then show ?thesis
  proof cases
    case 1
    with assms(1) show ?thesis
      by (simp add: GetAWSCredentials_def httpPostRequest_transport_error)
  next
    case 2
    with assms(1) show ?thesis
      by (simp add: GetAWSCredentials_def httpPostRequest_status_error)
  qed
qed

theorem GetAWSCredentials_failed_post_panics_witness:
  "GetAWSCredentials
     (test_world\<lparr>resty_execute :=
        scripted_server [((''POST'', ''/v0/credentials/tiny-squids/aws''), (500, ''''))]\<rparr>)
     test_target []
   = (Panic nil_dereference, [HttpCall ''POST'' ''/v0/credentials/tiny-squids/aws'' None])
   \<and> GetAWSCredentials (test_world\<lparr>resty_execute := scripted_server []\<rparr>) test_target []
   = (Panic nil_dereference, [HttpCall ''POST'' ''/v0/credentials/tiny-squids/aws'' None])"
proof -
  let ?w1 = "test_world\<lparr>resty_execute :=
        scripted_server [((''POST'', ''/v0/credentials/tiny-squids/aws''), (500, ''''))]\<rparr>"
  let ?w2 = "test_world\<lparr>resty_execute := scripted_server []\<rparr>"
  let ?path = "''/v0/credentials/'' @ HumanId test_target @ ''/aws''"
  have r1: "resty_execute ?w1 (Resty test_target) MethodPost ?path None
              = Inr \<lparr> StatusCode = 500, Body = '''', String = '''' \<rparr>"
    by (simp add: test_defs method_defs)
  have r2: "resty_execute ?w2 (Resty test_target) MethodPost ?path None = Inl ''connection refused''"
    by (simp add: test_defs method_defs)
  have "GetAWSCredentials ?w1 test_target [] = (Panic nil_dereference, [] @ [HttpCall MethodPost ?path None])"
    by (rule GetAWSCredentials_failed_post_panics [OF r1]) simp
  moreover
  have "GetAWSCredentials ?w2 test_target [] = (Panic nil_dereference, [] @ [HttpCall MethodPost ?path None])"
    by (rule GetAWSCredentials_failed_post_panics [OF r2]) simp
  ultimately show ?thesis
    by (simp add: test_target_def method_defs)
qed

text \<open>
  Claim C7. When the POST succeeds (a status in [200,300), the body decoded) and the
  decoded credentials have an access key id but an empty secret access key,
  \<open>GetAWSCredentials\<close> returns no credentials and the error
  \<^verbatim>\<open>AWS credential missing SecretAccessKey\<close>; when the access key id is empty, it
  returns no credentials and the error \<^verbatim>\<open>AWS credentials missing AccessKeyId\<close>.
\<close>

theorem GetAWSCredentials_incomplete:
  assumes "resty_execute w (Resty target) MethodPost (''/v0/credentials/'' @ HumanId target @ ''/aws'') None
             = Inr response"
    and "200 \<le> StatusCode response" and "StatusCode response < 300"
    and "Unmarshal_AWSCredentials w (Body response) = (Some c, None)"
  shows "(AccessKeyId c \<noteq> '''' \<and> SecretAccessKey c = '''' \<longrightarrow>
            fst (GetAWSCredentials w target tr)
              = Return (None, Some (Errorf ''AWS credential missing SecretAccessKey'' None)))
       \<and> (AccessKeyId c = '''' \<longrightarrow>
            fst (GetAWSCredentials w target tr)
              = Return (None, Some (Errorf ''AWS credentials missing AccessKeyId'' None)))"
  using assms by (simp add: GetAWSCredentials_def httpPostRequest_decoded)

theorem GetAWSCredentials_incomplete_witness:
  "fst (GetAWSCredentials
          (test_world\<lparr>resty_execute :=
             scripted_server [((''POST'', ''/v0/credentials/tiny-squids/aws''), (200, ''aws without secret''))]\<rparr>)
          test_target [])
     = Return (None, Some (Errorf ''AWS credential missing SecretAccessKey'' None))
   \<and> fst (GetAWSCredentials
          (test_world\<lparr>resty_execute :=
             scripted_server [((''POST'', ''/v0/credentials/tiny-squids/aws''), (200, ''aws without key''))]\<rparr>)
          test_target [])
     = Return (None, Some (Errorf ''AWS credentials missing AccessKeyId'' None))"
proof -
  let ?w1 = "test_world\<lparr>resty_execute :=
     scripted_server [((''POST'', ''/v0/credentials/tiny-squids/aws''), (200, ''aws without secret''))]\<rparr>"
  let ?w2 = "test_world\<lparr>resty_execute :=
     scripted_server [((''POST'', ''/v0/credentials/tiny-squids/aws''), (200, ''aws without key''))]\<rparr>"
  let ?path = "''/v0/credentials/'' @ HumanId test_target @ ''/aws''"
  let ?r1 = "\<lparr> StatusCode = 200, Body = ''aws without secret'', String = ''aws without secret'' \<rparr>"
  let ?r2 = "\<lparr> StatusCode = 200, Body = ''aws without key'', String = ''aws without key'' \<rparr>"
  have r1: "resty_execute ?w1 (Resty test_target) MethodPost ?path None = Inr ?r1"
    by (simp add: test_defs method_defs)
  have d1: "Unmarshal_AWSCredentials ?w1 (Body ?r1) = (Some (test_aws ''AKIA'' ''''), None)"
    by (simp add: test_defs)
  have r2: "resty_execute ?w2 (Resty test_target) MethodPost ?path None = Inr ?r2"
    by (simp add: test_defs method_defs)
  have d2: "Unmarshal_AWSCredentials ?w2 (Body ?r2) = (Some (test_aws '''' ''secret''), None)"
    by (simp add: test_defs)
  from GetAWSCredentials_incomplete [OF r1 _ _ d1, of "[]"]
       GetAWSCredentials_incomplete [OF r2 _ _ d2, of "[]"]
  show ?thesis by (simp add: test_aws_def)
qed

section \<open>Registry credentials\<close>

subsection \<open>Splitting at the first separator\<close>

lemma genSplit_zero: "genSplit sep 0 acc s = [acc @ s]"
  by (cases s) simp_all

lemma genSplit_no_separator: "sep \<notin> set s \<Longrightarrow> genSplit sep k acc s = [acc @ s]"
proof (induction s arbitrary: acc)
  case Nil
  then show ?case by simp
next
  case (Cons c cs)
  then show ?case by (cases k) auto
qed

lemma genSplit_first_separator:
  "sep \<notin> set u \<Longrightarrow> genSplit sep (Suc k) acc (u @ sep # p) = (acc @ u) # genSplit sep k [] p"
  by (induction u arbitrary: acc) auto

lemma SplitN_2_no_separator: "sep \<notin> set s \<Longrightarrow> SplitN s sep 2 = [s]"
  by (simp add: SplitN_def genSplit_no_separator)

lemma SplitN_2_first_separator: "sep \<notin> set u \<Longrightarrow> SplitN (u @ sep # p) sep 2 = [u, p]"
proof -
  assume "sep \<notin> set u"
  then have "genSplit sep (Suc 0) [] (u @ sep # p) = ([] @ u) # genSplit sep 0 [] p"
    by (rule genSplit_first_separator)
  then show ?thesis
    by (simp add: SplitN_def genSplit_zero)
qed

lemma SplitN_2_length: "length (SplitN s sep 2) \<noteq> 2 \<Longrightarrow> sep \<notin> set s"
proof (rule ccontr)
  assume len: "length (SplitN s sep 2) \<noteq> 2" and "\<not> sep \<notin> set s"
  then have "sep \<in> set s" by simp
  then obtain u p where "s = u @ sep # p" and "sep \<notin> set u"
    by (auto dest: split_list_first)
  then have "SplitN s sep 2 = [u, p]"
    by (simp add: SplitN_2_first_separator)
  with len show False by simp
qed

subsection \<open>The derivation chain\<close>

lemma GetAWSCredentials_outcome:
  "fst (GetAWSCredentials w target tr) = fst (GetAWSCredentials w target [])"
  by (simp add: GetAWSCredentials_def httpPostRequest_def httpRequest_def Let_def
           split: option.splits sum.splits prod.splits outcome.splits)

text \<open>
  Once the AWS credentials are derived, the cloud configuration is loaded and the registry
  has answered with a first element that holds a token and an endpoint, the result is
  decided by the decoding of the token and by the split of the decoded text.
\<close>

lemma GetDockerCredentials_decode:
  assumes aws: "fst (GetAWSCredentials w target []) = Return (Some c, None)"
    and cfg: "LoadDefaultConfig w (AwsRegion (Deployment details))
                \<lparr> aws_AccessKeyID = AccessKeyId c, aws_SecretAccessKey = SecretAccessKey c,
                  aws_SessionToken = SessionToken c \<rparr> = None"
    and tok: "GetAuthorizationToken w (AwsRegion (Deployment details))
                \<lparr> aws_AccessKeyID = AccessKeyId c, aws_SecretAccessKey = SecretAccessKey c,
                  aws_SessionToken = SessionToken c \<rparr> = Inr response"
    and first: "AuthorizationDataList response = a # rest"
    and token: "AuthorizationToken a = Some token"
    and url: "ProxyEndpoint a = Some url"
  shows "fst (GetDockerCredentials w target (Some details) tr) =
           (case base64_DecodeString w token of
              Inl e \<Rightarrow> Return (None, Some (LibError e))
            | Inr decoded \<Rightarrow>
                if length (SplitN decoded (CHR '':'') 2) \<noteq> 2 then
                  Return (None, Some (ErrorsNew ''failed to parse authorization token''))
                else Return (Some \<lparr> Username = SplitN decoded (CHR '':'') 2 ! 0,
                                     Password = SplitN decoded (CHR '':'') 2 ! 1,
                                     RegistryURL = url \<rparr>, None))"
proof -
  obtain tr1 where run:
    "GetAWSCredentials w target (tr @ [Log ''debug'' ''Get AWS credentials'']) = (Return (Some c, None), tr1)"
    using aws GetAWSCredentials_outcome [of w target "tr @ [Log ''debug'' ''Get AWS credentials'']"]
    by (cases "GetAWSCredentials w target (tr @ [Log ''debug'' ''Get AWS credentials''])") simp
  show ?thesis
    by (simp add: GetDockerCredentials_def run cfg tok first token url Let_def split: sum.splits)
qed

text \<open>
  Claim C6. When the registry's answer has an empty result list, or a first element without
  the authorization token or without the proxy endpoint, \<open>GetDockerCredentials\<close> returns
  no credentials and the error
  \<^verbatim>\<open>received an empty authorization token response for ECR repository\<close>.
\<close>

theorem GetDockerCredentials_empty_authorization:
  assumes "fst (GetAWSCredentials w target []) = Return (Some c, None)"
    and "LoadDefaultConfig w (AwsRegion (Deployment details))
           \<lparr> aws_AccessKeyID = AccessKeyId c, aws_SecretAccessKey = SecretAccessKey c,
             aws_SessionToken = SessionToken c \<rparr> = None"
    and "GetAuthorizationToken w (AwsRegion (Deployment details))
           \<lparr> aws_AccessKeyID = AccessKeyId c, aws_SecretAccessKey = SecretAccessKey c,
             aws_SessionToken = SessionToken c \<rparr> = Inr response"
    and "AuthorizationDataList response = []
         \<or> (\<exists>a rest. AuthorizationDataList response = a # rest
               \<and> (AuthorizationToken a = None \<or> ProxyEndpoint a = None))"
  shows "fst (GetDockerCredentials w target (Some details) tr) =
           Return (None, Some (ErrorsNew ''received an empty authorization token response for ECR repository''))"
proof -
  obtain tr1 where run:
    "GetAWSCredentials w target (tr @ [Log ''debug'' ''Get AWS credentials'']) = (Return (Some c, None), tr1)"
    using assms(1) GetAWSCredentials_outcome [of w target "tr @ [Log ''debug'' ''Get AWS credentials'']"]
    by (cases "GetAWSCredentials w target (tr @ [Log ''debug'' ''Get AWS credentials''])") simp
  from assms(4) have "length (AuthorizationDataList response) = 0
        \<or> AuthorizationToken (AuthorizationDataList response ! 0) = None
        \<or> ProxyEndpoint (AuthorizationDataList response ! 0) = None"
    by auto
  then show ?thesis
    by (simp add: GetDockerCredentials_def run assms(2,3) Let_def)
qed

theorem GetDockerCredentials_empty_authorization_witness:
  "fst (GetDockerCredentials
          (test_world\<lparr>GetAuthorizationToken := (\<lambda>region provider. Inr \<lparr> AuthorizationDataList = [] \<rparr>)\<rparr>)
          test_target (Some (test_details ''tiny-squids-ns'')) [])
     = Return (None, Some (ErrorsNew ''received an empty authorization token response for ECR repository''))
   \<and> fst (GetDockerCredentials
          (test_world\<lparr>GetAuthorizationToken := (\<lambda>region provider.
             Inr \<lparr> AuthorizationDataList =
                     [\<lparr> AuthorizationToken = Some ''YWJjOmRlOmY='', ProxyEndpoint = None \<rparr>] \<rparr>)\<rparr>)
          test_target (Some (test_details ''tiny-squids-ns'')) [])
     = Return (None, Some (ErrorsNew ''received an empty authorization token response for ECR repository''))"
proof -
  let ?w1 = "test_world\<lparr>GetAuthorizationToken := (\<lambda>region provider. Inr \<lparr> AuthorizationDataList = [] \<rparr>)\<rparr>"
  let ?w2 = "test_world\<lparr>GetAuthorizationToken := (\<lambda>region provider.
             Inr \<lparr> AuthorizationDataList =
                     [\<lparr> AuthorizationToken = Some ''YWJjOmRlOmY='', ProxyEndpoint = None \<rparr>] \<rparr>)\<rparr>"
  have aws1: "fst (GetAWSCredentials ?w1 test_target []) = Return (Some (test_aws ''AKIA'' ''secret''), None)"
    by (simp add: GetAWSCredentials_def httpPostRequest_def httpRequest_def test_defs method_defs status_defs)
  have aws2: "fst (GetAWSCredentials ?w2 test_target []) = Return (Some (test_aws ''AKIA'' ''secret''), None)"
    by (simp add: GetAWSCredentials_def httpPostRequest_def httpRequest_def test_defs method_defs status_defs)
  have "fst (GetDockerCredentials ?w1 test_target (Some (test_details ''tiny-squids-ns'')) [])
     = Return (None, Some (ErrorsNew ''received an empty authorization token response for ECR repository''))"
    by (rule GetDockerCredentials_empty_authorization [OF aws1, where response = "\<lparr> AuthorizationDataList = [] \<rparr>"])
       (simp_all add: test_world_def)
  moreover
  have "fst (GetDockerCredentials ?w2 test_target (Some (test_details ''tiny-squids-ns'')) [])
     = Return (None, Some (ErrorsNew ''received an empty authorization token response for ECR repository''))"
    by (rule GetDockerCredentials_empty_authorization [OF aws2, where response = "\<lparr> AuthorizationDataList =
                     [\<lparr> AuthorizationToken = Some ''YWJjOmRlOmY='', ProxyEndpoint = None \<rparr>] \<rparr>"])
       (simp_all add: test_world_def)
  ultimately show ?thesis by simp
qed

text \<open>
  Claim C5. The decoded authorization token is split at its first colon only: a token
  without a colon is rejected with the error \<^verbatim>\<open>failed to parse authorization token\<close>,
  and a token \<open>u:p\<close> with no colon in \<open>u\<close> gives the username \<open>u\<close> and the password
  \<open>p\<close>, whatever colons \<open>p\<close> holds (\<open>abc:de:f\<close> gives \<open>abc\<close> and \<open>de:f\<close>).
\<close>

theorem GetDockerCredentials_first_colon:
  assumes "fst (GetAWSCredentials w target []) = Return (Some c, None)"
    and "LoadDefaultConfig w (AwsRegion (Deployment details))
           \<lparr> aws_AccessKeyID = AccessKeyId c, aws_SecretAccessKey = SecretAccessKey c,
             aws_SessionToken = SessionToken c \<rparr> = None"
    and "GetAuthorizationToken w (AwsRegion (Deployment details))
           \<lparr> aws_AccessKeyID = AccessKeyId c, aws_SecretAccessKey = SecretAccessKey c,
             aws_SessionToken = SessionToken c \<rparr> = Inr response"
    and "AuthorizationDataList response = a # rest"
    and "AuthorizationToken a = Some token"
    and "ProxyEndpoint a = Some url"
    and "base64_DecodeString w token = Inr decoded"
  shows "(CHR '':'' \<notin> set decoded \<longrightarrow>
            fst (GetDockerCredentials w target (Some details) tr)
              = Return (None, Some (ErrorsNew ''failed to parse authorization token'')))
       \<and> (\<forall>u p. decoded = u @ CHR '':'' # p \<and> CHR '':'' \<notin> set u \<longrightarrow>
            fst (GetDockerCredentials w target (Some details) tr)
              = Return (Some \<lparr> Username = u, Password = p, RegistryURL = url \<rparr>, None))"
proof -
  note run = GetDockerCredentials_decode [OF assms(1-6), of tr]
  show ?thesis
    by (simp add: run assms(7) SplitN_2_no_separator SplitN_2_first_separator)
qed

theorem GetDockerCredentials_first_colon_witness:
  "fst (GetDockerCredentials test_world test_target (Some (test_details ''tiny-squids-ns'')) [])
     = Return (Some \<lparr> Username = ''abc'', Password = ''de:f'',
                       RegistryURL = ''https://registry.test'' \<rparr>, None)
   \<and> fst (GetDockerCredentials
          (test_world\<lparr>GetAuthorizationToken := (\<lambda>region provider.
             Inr \<lparr> AuthorizationDataList =
                     [\<lparr> AuthorizationToken = Some ''bm9jb2xvbg=='',
                        ProxyEndpoint = Some ''https://registry.test'' \<rparr>] \<rparr>)\<rparr>)
          test_target (Some (test_details ''tiny-squids-ns'')) [])
     = Return (None, Some (ErrorsNew ''failed to parse authorization token''))"
proof -
  let ?a1 = "\<lparr> AuthorizationToken = Some ''YWJjOmRlOmY='', ProxyEndpoint = Some ''https://registry.test'' \<rparr>"
  let ?a2 = "\<lparr> AuthorizationToken = Some ''bm9jb2xvbg=='', ProxyEndpoint = Some ''https://registry.test'' \<rparr>"
  let ?w2 = "test_world\<lparr>GetAuthorizationToken := (\<lambda>region provider.
               Inr \<lparr> AuthorizationDataList = [?a2] \<rparr>)\<rparr>"
  have aws1: "fst (GetAWSCredentials test_world test_target []) = Return (Some (test_aws ''AKIA'' ''secret''), None)"
    by (simp add: GetAWSCredentials_def httpPostRequest_def httpRequest_def test_defs method_defs status_defs)
  have aws2: "fst (GetAWSCredentials ?w2 test_target []) = Return (Some (test_aws ''AKIA'' ''secret''), None)"
    by (simp add: GetAWSCredentials_def httpPostRequest_def httpRequest_def test_defs method_defs status_defs)
  have cfg1: "LoadDefaultConfig test_world (AwsRegion (Deployment (test_details ''tiny-squids-ns'')))
           \<lparr> aws_AccessKeyID = AccessKeyId (test_aws ''AKIA'' ''secret''),
             aws_SecretAccessKey = SecretAccessKey (test_aws ''AKIA'' ''secret''),
             aws_SessionToken = SessionToken (test_aws ''AKIA'' ''secret'') \<rparr> = None"
    by (simp add: test_world_def)
  have cfg2: "LoadDefaultConfig ?w2 (AwsRegion (Deployment (test_details ''tiny-squids-ns'')))
           \<lparr> aws_AccessKeyID = AccessKeyId (test_aws ''AKIA'' ''secret''),
             aws_SecretAccessKey = SecretAccessKey (test_aws ''AKIA'' ''secret''),
             aws_SessionToken = SessionToken (test_aws ''AKIA'' ''secret'') \<rparr> = None"
    by (simp add: test_world_def)
  have tok1: "GetAuthorizationToken test_world (AwsRegion (Deployment (test_details ''tiny-squids-ns'')))
           \<lparr> aws_AccessKeyID = AccessKeyId (test_aws ''AKIA'' ''secret''),
             aws_SecretAccessKey = SecretAccessKey (test_aws ''AKIA'' ''secret''),
             aws_SessionToken = SessionToken (test_aws ''AKIA'' ''secret'') \<rparr>
           = Inr \<lparr> AuthorizationDataList = [?a1] \<rparr>"
    by (simp add: test_world_def)
  have tok2: "GetAuthorizationToken ?w2 (AwsRegion (Deployment (test_details ''tiny-squids-ns'')))
           \<lparr> aws_AccessKeyID = AccessKeyId (test_aws ''AKIA'' ''secret''),
             aws_SecretAccessKey = SecretAccessKey (test_aws ''AKIA'' ''secret''),
             aws_SessionToken = SessionToken (test_aws ''AKIA'' ''secret'') \<rparr>
           = Inr \<lparr> AuthorizationDataList = [?a2] \<rparr>"
    by (simp add: test_world_def)
  have dec1: "base64_DecodeString test_world ''YWJjOmRlOmY='' = Inr ''abc:de:f''"
    by (simp add: test_world_def)
  have dec2: "base64_DecodeString ?w2 ''bm9jb2xvbg=='' = Inr ''nocolon''"
    by (simp add: test_world_def)
  from GetDockerCredentials_first_colon
         [OF aws1 cfg1 tok1, of ?a1 "[]" "''YWJjOmRlOmY=''" "''https://registry.test''" "''abc:de:f''" "[]"]
       dec1
  have "fst (GetDockerCredentials test_world test_target (Some (test_details ''tiny-squids-ns'')) [])
     = Return (Some \<lparr> Username = ''abc'', Password = ''de:f'',
                       RegistryURL = ''https://registry.test'' \<rparr>, None)"
    by simp
  moreover
  from GetDockerCredentials_first_colon
         [OF aws2 cfg2 tok2, of ?a2 "[]" "''bm9jb2xvbg==''" "''https://registry.test''" "''nocolon''" "[]"]
       dec2
  have "fst (GetDockerCredentials ?w2 test_target (Some (test_details ''tiny-squids-ns'')) [])
     = Return (None, Some (ErrorsNew ''failed to parse authorization token''))"
    by simp
  ultimately show ?thesis by simp
qed

text \<open>
  Claim C10. When the authorization token is not valid base64, \<open>GetDockerCredentials\<close>
  returns the decoder's error and no credentials. That error is not the error
  \<^verbatim>\<open>failed to parse authorization token\<close>, which is returned only when the token was
  decoded and the decoded text has no colon.
\<close>

theorem GetDockerCredentials_base64_error:
  assumes "fst (GetAWSCredentials w target []) = Return (Some c, None)"
    and "LoadDefaultConfig w (AwsRegion (Deployment details))
           \<lparr> aws_AccessKeyID = AccessKeyId c, aws_SecretAccessKey = SecretAccessKey c,
             aws_SessionToken = SessionToken c \<rparr> = None"
    and "GetAuthorizationToken w (AwsRegion (Deployment details))
           \<lparr> aws_AccessKeyID = AccessKeyId c, aws_SecretAccessKey = SecretAccessKey c,
             aws_SessionToken = SessionToken c \<rparr> = Inr response"
    and "AuthorizationDataList response = a # rest"
    and "AuthorizationToken a = Some token"
    and "ProxyEndpoint a = Some url"
  shows "(\<forall>e. base64_DecodeString w token = Inl e \<longrightarrow>
            fst (GetDockerCredentials w target (Some details) tr) = Return (None, Some (LibError e))
            \<and> LibError e \<noteq> ErrorsNew ''failed to parse authorization token'')
       \<and> (fst (GetDockerCredentials w target (Some details) tr)
              = Return (None, Some (ErrorsNew ''failed to parse authorization token'')) \<longrightarrow>
            (\<exists>decoded. base64_DecodeString w token = Inr decoded \<and> CHR '':'' \<notin> set decoded))"
proof -
  note run = GetDockerCredentials_decode [OF assms(1-6), of tr]
  show ?thesis
  proof (cases "base64_DecodeString w token")
    case (Inl e)
    then show ?thesis by (simp add: run)
  next
    case (Inr decoded)
    then show ?thesis
      by (auto simp add: run dest: SplitN_2_length split: if_splits)
  qed
qed

theorem GetDockerCredentials_base64_error_witness:
  "fst (GetDockerCredentials
          (test_world\<lparr>GetAuthorizationToken := (\<lambda>region provider.
             Inr \<lparr> AuthorizationDataList =
                     [\<lparr> AuthorizationToken = Some ''not base64'',
                        ProxyEndpoint = Some ''https://registry.test'' \<rparr>] \<rparr>)\<rparr>)
          test_target (Some (test_details ''tiny-squids-ns'')) [])
     = Return (None, Some (LibError ''illegal base64 data at input byte 0''))
   \<and> fst (GetDockerCredentials
          (test_world\<lparr>GetAuthorizationToken := (\<lambda>region provider.
             Inr \<lparr> AuthorizationDataList =
                     [\<lparr> AuthorizationToken = Some ''bm9jb2xvbg=='',
                        ProxyEndpoint = Some ''https://registry.test'' \<rparr>] \<rparr>)\<rparr>)
          test_target (Some (test_details ''tiny-squids-ns'')) [])
     = Return (None, Some (ErrorsNew ''failed to parse authorization token''))
   \<and> (\<exists>decoded. base64_DecodeString test_world ''bm9jb2xvbg=='' = Inr decoded \<and> CHR '':'' \<notin> set decoded)"
proof -
  let ?a1 = "\<lparr> AuthorizationToken = Some ''not base64'', ProxyEndpoint = Some ''https://registry.test'' \<rparr>"
  let ?a2 = "\<lparr> AuthorizationToken = Some ''bm9jb2xvbg=='', ProxyEndpoint = Some ''https://registry.test'' \<rparr>"
  let ?w1 = "test_world\<lparr>GetAuthorizationToken := (\<lambda>region provider.
               Inr \<lparr> AuthorizationDataList = [?a1] \<rparr>)\<rparr>"
  let ?w2 = "test_world\<lparr>GetAuthorizationToken := (\<lambda>region provider.
               Inr \<lparr> AuthorizationDataList = [?a2] \<rparr>)\<rparr>"
  have aws1: "fst (GetAWSCredentials ?w1 test_target []) = Return (Some (test_aws ''AKIA'' ''secret''), None)"
    by (simp add: GetAWSCredentials_def httpPostRequest_def httpRequest_def test_defs method_defs status_defs)
  have aws2: "fst (GetAWSCredentials ?w2 test_target []) = Return (Some (test_aws ''AKIA'' ''secret''), None)"
    by (simp add: GetAWSCredentials_def httpPostRequest_def httpRequest_def test_defs method_defs status_defs)
  have cfg1: "LoadDefaultConfig ?w1 (AwsRegion (Deployment (test_details ''tiny-squids-ns'')))
           \<lparr> aws_AccessKeyID = AccessKeyId (test_aws ''AKIA'' ''secret''),
             aws_SecretAccessKey = SecretAccessKey (test_aws ''AKIA'' ''secret''),
             aws_SessionToken = SessionToken (test_aws ''AKIA'' ''secret'') \<rparr> = None"
    by (simp add: test_world_def)
  have cfg2: "LoadDefaultConfig ?w2 (AwsRegion (Deployment (test_details ''tiny-squids-ns'')))
           \<lparr> aws_AccessKeyID = AccessKeyId (test_aws ''AKIA'' ''secret''),
             aws_SecretAccessKey = SecretAccessKey (test_aws ''AKIA'' ''secret''),
             aws_SessionToken = SessionToken (test_aws ''AKIA'' ''secret'') \<rparr> = None"
    by (simp add: test_world_def)
  have tok1: "GetAuthorizationToken ?w1 (AwsRegion (Deployment (test_details ''tiny-squids-ns'')))
           \<lparr> aws_AccessKeyID = AccessKeyId (test_aws ''AKIA'' ''secret''),
             aws_SecretAccessKey = SecretAccessKey (test_aws ''AKIA'' ''secret''),
             aws_SessionToken = SessionToken (test_aws ''AKIA'' ''secret'') \<rparr>
           = Inr \<lparr> AuthorizationDataList = [?a1] \<rparr>"
    by (simp add: test_world_def)
  have tok2: "GetAuthorizationToken ?w2 (AwsRegion (Deployment (test_details ''tiny-squids-ns'')))
           \<lparr> aws_AccessKeyID = AccessKeyId (test_aws ''AKIA'' ''secret''),
             aws_SecretAccessKey = SecretAccessKey (test_aws ''AKIA'' ''secret''),
             aws_SessionToken = SessionToken (test_aws ''AKIA'' ''secret'') \<rparr>
           = Inr \<lparr> AuthorizationDataList = [?a2] \<rparr>"
    by (simp add: test_world_def)
  have dec1: "base64_DecodeString ?w1 ''not base64'' = Inl ''illegal base64 data at input byte 0''"
    by (simp add: test_world_def)
  have dec2: "base64_DecodeString ?w2 ''bm9jb2xvbg=='' = Inr ''nocolon''"
    by (simp add: test_world_def)
  have dec2': "base64_DecodeString test_world ''bm9jb2xvbg=='' = Inr ''nocolon''"
    by (simp add: test_world_def)
  from GetDockerCredentials_base64_error
         [OF aws1 cfg1 tok1, of ?a1 "[]" "''not base64''" "''https://registry.test''" "[]"]
       dec1
  have "fst (GetDockerCredentials ?w1 test_target (Some (test_details ''tiny-squids-ns'')) [])
     = Return (None, Some (LibError ''illegal base64 data at input byte 0''))"
    by simp
  moreover
  have run2: "fst (GetDockerCredentials ?w2 test_target (Some (test_details ''tiny-squids-ns'')) [])
     = Return (None, Some (ErrorsNew ''failed to parse authorization token''))"
    using GetDockerCredentials_decode
         [OF aws2 cfg2 tok2, of ?a2 "[]" "''bm9jb2xvbg==''" "''https://registry.test''" "[]"]
    by (simp add: dec2' SplitN_def)
  moreover
  from GetDockerCredentials_base64_error
         [OF aws2 cfg2 tok2, of ?a2 "[]" "''bm9jb2xvbg==''" "''https://registry.test''" "[]"]
       run2 dec2 dec2'
  have "\<exists>decoded. base64_DecodeString test_world ''bm9jb2xvbg=='' = Inr decoded \<and> CHR '':'' \<notin> set decoded"
    by simp
  ultimately show ?thesis by simp
qed

section \<open>The kubeconfig with an exec hook\<close>

subsection \<open>What each step records\<close>

lemma httpPostRequest_events:
  "\<exists>logs. snd (httpPostRequest w T client path body tr) = tr @ HttpCall MethodPost path body # logs
          \<and> calls logs = []"
  by (simp add: httpPostRequest_def httpRequest_def method_defs calls_def Let_def
           split: sum.splits TResponse.splits prod.splits option.splits)

lemma httpGetRequest_events:
  "\<exists>logs. snd (httpGetRequest w T client path tr) = tr @ HttpCall MethodGet path None # logs
          \<and> calls logs = []"
  by (simp add: httpGetRequest_def httpRequest_def method_defs calls_def Let_def
           split: sum.splits TResponse.splits prod.splits option.splits)

lemma httpPostRequest_outcome:
  "fst (httpPostRequest w T client path body tr) = fst (httpPostRequest w T client path body [])"
  by (simp add: httpPostRequest_def httpRequest_def Let_def
           split: sum.splits TResponse.splits prod.splits option.splits)

lemma GetDetails_outcome: "fst (GetDetails w target tr) = fst (GetDetails w target [])"
  by (simp add: GetDetails_def httpGetRequest_def httpRequest_def Let_def
           split: sum.splits TResponse.splits prod.splits option.splits)

lemma GetDetails_events:
  "\<exists>logs. snd (GetDetails w target tr)
            = tr @ HttpCall MethodGet (''/v0/deployments/'' @ HumanId target) None # logs
          \<and> calls logs = []"
  using httpGetRequest_events [of w _ "Resty target" "''/v0/deployments/'' @ HumanId target" tr]
  by (simp add: GetDetails_def)

lemma httpPostRequest_runD:
  "httpPostRequest w T client path body tr = (out, tr')
     \<Longrightarrow> fst (httpPostRequest w T client path body []) = out
         \<and> (\<exists>logs. tr' = tr @ HttpCall MethodPost path body # logs \<and> calls logs = [])"
  using httpPostRequest_events [of w T client path body tr]
        httpPostRequest_outcome [of w T client path body tr]
  by simp

lemma GetDetails_runD:
  "GetDetails w target tr = (out, tr')
     \<Longrightarrow> fst (GetDetails w target []) = out
         \<and> (\<exists>logs. tr' = tr @ HttpCall MethodGet (''/v0/deployments/'' @ HumanId target) None # logs
               \<and> calls logs = [])"
  using GetDetails_events [of w target tr] GetDetails_outcome [of w target tr]
  by simp

subsection \<open>The steps of a run\<close>

lemma GetKubeConfigWithExecCredential_missing_cluster:
  assumes "fst (httpPostRequest w (IsStruct (Unmarshal_KubeExecCredential w)) (Resty target)
                  (''/v0/credentials/'' @ HumanId target @ ''/k8s?type=execcredential'') None [])
             = Return (Some credentials, None)"
    and "spec_Cluster (cred_Spec credentials) = Some cluster"
    and "spec_cluster_CertificateAuthorityData cluster = ''''"
    and "spec_cluster_Server cluster = ''''"
  shows "fst (GetKubeConfigWithExecCredential w target tr)
           = Return (None, Some (Errorf ''Received kubeExecCredential with missing spec.cluster'' None))
       \<and> (\<exists>new. snd (GetKubeConfigWithExecCredential w target tr) = tr @ new
             \<and> calls new =
                 [HttpCall MethodPost (''/v0/credentials/'' @ HumanId target @ ''/k8s?type=execcredential'')
                    None])"
  using assms
  by (auto simp add: GetKubeConfigWithExecCredential_def Let_def calls_def
           split: outcome.splits option.splits prod.splits sum.splits
           dest!: httpPostRequest_runD GetDetails_runD)

lemma GetKubeConfigWithExecCredential_missing_namespace:
  assumes "fst (httpPostRequest w (IsStruct (Unmarshal_KubeExecCredential w)) (Resty target)
                  (''/v0/credentials/'' @ HumanId target @ ''/k8s?type=execcredential'') None [])
             = Return (Some credentials, None)"
    and "spec_Cluster (cred_Spec credentials) = Some cluster"
    and "spec_cluster_CertificateAuthorityData cluster \<noteq> '''' \<or> spec_cluster_Server cluster \<noteq> ''''"
    and "fst (GetDetails w target []) = Return (Some environment, None)"
    and "KubernetesNamespace (Deployment environment) = ''''"
  shows "fst (GetKubeConfigWithExecCredential w target tr)
           = Return (None, Some (Errorf ''Environment details did not contain a valid Kubernetes namespace''
                                   None))
       \<and> (\<exists>new. snd (GetKubeConfigWithExecCredential w target tr) = tr @ new
             \<and> calls new =
                 [HttpCall MethodPost (''/v0/credentials/'' @ HumanId target @ ''/k8s?type=execcredential'')
                    None,
                  HttpCall MethodGet (''/v0/deployments/'' @ HumanId target) None])"
  using assms
  by (auto simp add: GetKubeConfigWithExecCredential_def Let_def calls_def
           split: outcome.splits option.splits prod.splits sum.splits
           dest!: httpPostRequest_runD GetDetails_runD)

lemma GetKubeConfigWithExecCredential_post_error:
  assumes "fst (httpPostRequest w (IsStruct (Unmarshal_KubeExecCredential w)) (Resty target)
                  (''/v0/credentials/'' @ HumanId target @ ''/k8s?type=execcredential'') None [])
             = Return (r, Some e)"
  shows "fst (GetKubeConfigWithExecCredential w target tr) = Return (None, Some e)
       \<and> (\<exists>new. snd (GetKubeConfigWithExecCredential w target tr) = tr @ new
             \<and> calls new =
                 [HttpCall MethodPost (''/v0/credentials/'' @ HumanId target @ ''/k8s?type=execcredential'')
                    None])"
  using assms
  by (auto simp add: GetKubeConfigWithExecCredential_def Let_def calls_def
           split: outcome.splits option.splits prod.splits sum.splits
           dest!: httpPostRequest_runD GetDetails_runD)

lemma GetKubeConfigWithExecCredential_details_error:
  assumes "fst (httpPostRequest w (IsStruct (Unmarshal_KubeExecCredential w)) (Resty target)
                  (''/v0/credentials/'' @ HumanId target @ ''/k8s?type=execcredential'') None [])
             = Return (Some credentials, None)"
    and "spec_Cluster (cred_Spec credentials) = Some cluster"
    and "spec_cluster_CertificateAuthorityData cluster \<noteq> '''' \<or> spec_cluster_Server cluster \<noteq> ''''"
    and "fst (GetDetails w target []) = Return (r, Some e)"
  shows "fst (GetKubeConfigWithExecCredential w target tr) = Return (None, Some e)
       \<and> (\<exists>new. snd (GetKubeConfigWithExecCredential w target tr) = tr @ new
             \<and> calls new =
                 [HttpCall MethodPost (''/v0/credentials/'' @ HumanId target @ ''/k8s?type=execcredential'')
                    None,
                  HttpCall MethodGet (''/v0/deployments/'' @ HumanId target) None])"
  using assms
  by (auto simp add: GetKubeConfigWithExecCredential_def Let_def calls_def
           split: outcome.splits option.splits prod.splits sum.splits
           dest!: httpPostRequest_runD GetDetails_runD)

lemma GetKubeConfigWithExecCredential_lookup_error:
  assumes "fst (httpPostRequest w (IsStruct (Unmarshal_KubeExecCredential w)) (Resty target)
                  (''/v0/credentials/'' @ HumanId target @ ''/k8s?type=execcredential'') None [])
             = Return (Some credentials, None)"
    and "spec_Cluster (cred_Spec credentials) = Some cluster"
    and "spec_cluster_CertificateAuthorityData cluster \<noteq> '''' \<or> spec_cluster_Server cluster \<noteq> ''''"
    and "fst (GetDetails w target []) = Return (Some environment, None)"
    and "KubernetesNamespace (Deployment environment) \<noteq> ''''"
    and "FetchUserInfo w (TokenSet target) = Inl e"
  shows "fst (GetKubeConfigWithExecCredential w target tr)
           = Return (None, Some (Errorf (''Failed to fetch userinfo: '' @ e) (Some (LibError e))))
       \<and> (\<exists>new. snd (GetKubeConfigWithExecCredential w target tr) = tr @ new
             \<and> calls new =
                 [HttpCall MethodPost (''/v0/credentials/'' @ HumanId target @ ''/k8s?type=execcredential'')
                    None,
                  HttpCall MethodGet (''/v0/deployments/'' @ HumanId target) None,
                  FetchUserInfoCall (AccessToken (TokenSet target))])"
  using assms
  by (auto simp add: GetKubeConfigWithExecCredential_def Let_def calls_def
           split: outcome.splits option.splits prod.splits sum.splits
           dest!: httpPostRequest_runD GetDetails_runD)

text \<open>
  When every step succeeds, the run hands one document to the YAML encoder, after the three
  calls, and returns the encoder's text.
\<close>

lemma GetKubeConfigWithExecCredential_assembles:
  assumes "fst (httpPostRequest w (IsStruct (Unmarshal_KubeExecCredential w)) (Resty target)
                  (''/v0/credentials/'' @ HumanId target @ ''/k8s?type=execcredential'') None [])
             = Return (Some credentials, None)"
    and "spec_Cluster (cred_Spec credentials) = Some cluster"
    and "spec_cluster_CertificateAuthorityData cluster \<noteq> '''' \<or> spec_cluster_Server cluster \<noteq> ''''"
    and "fst (GetDetails w target []) = Return (Some environment, None)"
    and "KubernetesNamespace (Deployment environment) \<noteq> ''''"
    and "FetchUserInfo w (TokenSet target) = Inr userinfo"
    and "document =
            \<lparr> ApiVersion = ''v1'',
              Clusters =
                [\<lparr> cluster_Cluster =
                     \<lparr> CertificateAuthorityData =
                         base64_EncodeToString w (spec_cluster_CertificateAuthorityData cluster),
                       Server = spec_cluster_Server cluster \<rparr>,
                   cluster_Name = spec_cluster_Server cluster \<rparr>],
              Contexts =
                [\<lparr> context_Context =
                     \<lparr> context_data_Cluster = spec_cluster_Server cluster,
                       context_data_User = Email userinfo,
                       context_data_Namespace = KubernetesNamespace (Deployment environment) \<rparr>,
                   context_Name = HumanId target \<rparr>],
              CurrentContext = HumanId target,
              Kind = ''Config'',
              Preferences = [],
              Users =
                [\<lparr> user_Name = Email userinfo,
                   user_User =
                     \<lparr> Token = '''',
                       Exec =
                         \<lparr> Command = ''metaplay'',
                           Args =
                             [''environment'',
                              ''get-kubernetes-execcredential'',
                              ''--stack-api'',
                              StackApiBaseURL target,
                              ''--environment'',
                              HumanId target],
                           exec_ApiVersion = ''client.authentication.k8s.io/v1beta1'',
                           InteractiveMode = ''Never'' \<rparr> \<rparr> \<rparr>] \<rparr>"
  shows "fst (GetKubeConfigWithExecCredential w target tr) = Return (Some (fst (yaml_Marshal w document)), None)
       \<and> (\<exists>new. snd (GetKubeConfigWithExecCredential w target tr) = tr @ new
             \<and> calls new =
                 [HttpCall MethodPost (''/v0/credentials/'' @ HumanId target @ ''/k8s?type=execcredential'')
                    None,
                  HttpCall MethodGet (''/v0/deployments/'' @ HumanId target) None,
                  FetchUserInfoCall (AccessToken (TokenSet target)),
                  MarshalCall document])"
  using assms
  by (auto simp add: GetKubeConfigWithExecCredential_def Let_def calls_def
           split: outcome.splits option.splits prod.splits sum.splits
           dest!: httpPostRequest_runD GetDetails_runD)

text \<open>A run succeeds only when every step has succeeded.\<close>

lemma GetKubeConfigWithExecCredential_success_steps:
  assumes "fst (GetKubeConfigWithExecCredential w target tr) = Return (Some dump, None)"
  shows "\<exists>credentials cluster environment userinfo.
           fst (httpPostRequest w (IsStruct (Unmarshal_KubeExecCredential w)) (Resty target)
                  (''/v0/credentials/'' @ HumanId target @ ''/k8s?type=execcredential'') None [])
             = Return (Some credentials, None)
         \<and> spec_Cluster (cred_Spec credentials) = Some cluster
         \<and> (spec_cluster_CertificateAuthorityData cluster \<noteq> '''' \<or> spec_cluster_Server cluster \<noteq> '''')
         \<and> fst (GetDetails w target []) = Return (Some environment, None)
         \<and> KubernetesNamespace (Deployment environment) \<noteq> ''''
         \<and> FetchUserInfo w (TokenSet target) = Inr userinfo"
  using assms
  by (auto simp add: GetKubeConfigWithExecCredential_def Let_def
           split: outcome.splits option.splits prod.splits sum.splits if_splits
           dest!: httpPostRequest_runD GetDetails_runD)

text \<open>
  Claim C2. \<open>GetKubeConfigWithExecCredential\<close> is to fail with the missing-cluster error,
  without the deployment-details call, whenever the payload's \<open>spec.cluster\<close> has neither CA
  data nor server URL. For a payload that has no \<open>spec.cluster\<close> at all the code does not:
  it reads \<^verbatim>\<open>credentials.Spec.Cluster.CertificateAuthorityData\<close> through the nil pointer
  and panics after the POST, returning no error. (For a cluster that is present, the lemmas
  above give the claim: the error after the POST alone when both fields are empty, the
  namespace error after the POST and the GET, and the three calls in order otherwise.)
\<close>

theorem GetKubeConfigWithExecCredential_absent_cluster_panics:
  assumes "fst (httpPostRequest w (IsStruct (Unmarshal_KubeExecCredential w)) (Resty target)
                  (''/v0/credentials/'' @ HumanId target @ ''/k8s?type=execcredential'') None [])
             = Return (Some credentials, None)"
    and "spec_Cluster (cred_Spec credentials) = None"
  shows "fst (GetKubeConfigWithExecCredential w target tr) = Panic nil_dereference
       \<and> (\<exists>new. snd (GetKubeConfigWithExecCredential w target tr) = tr @ new
             \<and> calls new =
                 [HttpCall MethodPost (''/v0/credentials/'' @ HumanId target @ ''/k8s?type=execcredential'')
                    None])"
  using assms
  by (auto simp add: GetKubeConfigWithExecCredential_def Let_def calls_def
           split: outcome.splits option.splits prod.splits sum.splits
           dest!: httpPostRequest_runD GetDetails_runD)

theorem GetKubeConfigWithExecCredential_absent_cluster_panics_witness:
  "GetKubeConfigWithExecCredential
     (test_world\<lparr>resty_execute := scripted_server
        [((''POST'', ''/v0/credentials/tiny-squids/k8s?type=execcredential''),
          (200, ''credential without cluster''))]\<rparr>)
     test_target []
   = (Panic nil_dereference,
      [Log ''debug'' (''Getting Kubernetes KubeConfig with execcredential from ''
                      @ ''https://infra.test/stackapi/v0/credentials/tiny-squids/k8s?type=execcredential...''),
       HttpCall ''POST'' ''/v0/credentials/tiny-squids/k8s?type=execcredential'' None])"
proof -
  let ?w = "test_world\<lparr>resty_execute := scripted_server
        [((''POST'', ''/v0/credentials/tiny-squids/k8s?type=execcredential''),
          (200, ''credential without cluster''))]\<rparr>"
  let ?path = "''/v0/credentials/'' @ HumanId test_target @ ''/k8s?type=execcredential''"
  have post: "fst (httpPostRequest ?w (IsStruct (Unmarshal_KubeExecCredential ?w)) (Resty test_target)
                     ?path None [])
                = Return (Some test_credential_without_cluster, None)"
    by (simp add: httpPostRequest_def httpRequest_def test_defs method_defs status_defs)
  have absent: "spec_Cluster (cred_Spec test_credential_without_cluster) = None"
    by (simp add: test_credential_without_cluster_def)
  have events: "snd (GetKubeConfigWithExecCredential ?w test_target [])
     = [Log ''debug'' (''Getting Kubernetes KubeConfig with execcredential from ''
                      @ ''https://infra.test/stackapi/v0/credentials/tiny-squids/k8s?type=execcredential...''),
        HttpCall ''POST'' ''/v0/credentials/tiny-squids/k8s?type=execcredential'' None]"
    by (simp add: GetKubeConfigWithExecCredential_def httpPostRequest_def httpRequest_def
          test_defs test_credential_without_cluster_def method_defs status_defs)
  from GetKubeConfigWithExecCredential_absent_cluster_panics [OF post absent, of "[]"]
  have "fst (GetKubeConfigWithExecCredential ?w test_target []) = Panic nil_dereference"
    by simp
  with events show ?thesis
    by (simp add: prod_eq_iff)
qed

subsection \<open>The assembled document\<close>

text \<open>
  Claim C3. Every run of \<open>GetKubeConfigWithExecCredential\<close> that returns a kubeconfig has
  handed one document to the YAML encoder, and the text returned is the encoder's text for
  that document. The document has one user entry, named by the email of the identity, which
  holds no token and an exec hook: the command \<open>metaplay\<close>, the arguments
  \<open>environment get-kubernetes-execcredential --stack-api <StackApiBaseURL> --environment
  <HumanId>\<close> in this order, the API version \<open>client.authentication.k8s.io/v1beta1\<close> and
  the interactive mode \<open>Never\<close>. A run returns a kubeconfig whenever the payload has a
  cluster with CA data or a server URL, the namespace is not empty and the identity is
  resolved.
\<close>

theorem GetKubeConfigWithExecCredential_exec_hook:
  "(\<forall>dump tr'.
      GetKubeConfigWithExecCredential w target tr = (Return (Some dump, None), tr') \<longrightarrow>
      (\<exists>new k userinfo.
         tr' = tr @ new
       \<and> calls new =
           [HttpCall MethodPost (''/v0/credentials/'' @ HumanId target @ ''/k8s?type=execcredential'') None,
            HttpCall MethodGet (''/v0/deployments/'' @ HumanId target) None,
            FetchUserInfoCall (AccessToken (TokenSet target)),
            MarshalCall k]
       \<and> dump = fst (yaml_Marshal w k)
       \<and> FetchUserInfo w (TokenSet target) = Inr userinfo
       \<and> Users k =
           [\<lparr> user_Name = Email userinfo,
              user_User =
                \<lparr> Token = '''',
                  Exec =
                    \<lparr> Command = ''metaplay'',
                      Args = [''environment'', ''get-kubernetes-execcredential'', ''--stack-api'',
                              StackApiBaseURL target, ''--environment'', HumanId target],
                      exec_ApiVersion = ''client.authentication.k8s.io/v1beta1'',
                      InteractiveMode = ''Never'' \<rparr> \<rparr> \<rparr>]))
   \<and> (\<forall>credentials cluster environment userinfo.
         fst (httpPostRequest w (IsStruct (Unmarshal_KubeExecCredential w)) (Resty target)
                (''/v0/credentials/'' @ HumanId target @ ''/k8s?type=execcredential'') None [])
           = Return (Some credentials, None)
       \<and> spec_Cluster (cred_Spec credentials) = Some cluster
       \<and> (spec_cluster_CertificateAuthorityData cluster \<noteq> '''' \<or> spec_cluster_Server cluster \<noteq> '''')
       \<and> fst (GetDetails w target []) = Return (Some environment, None)
       \<and> KubernetesNamespace (Deployment environment) \<noteq> ''''
       \<and> FetchUserInfo w (TokenSet target) = Inr userinfo
       \<longrightarrow> (\<exists>dump tr'. GetKubeConfigWithExecCredential w target tr = (Return (Some dump, None), tr')))"
  (is "?hook \<and> ?assembled")
proof
  show ?hook
  proof (intro allI impI)
    fix dump tr'
    assume run: "GetKubeConfigWithExecCredential w target tr = (Return (Some dump, None), tr')"
    then have "fst (GetKubeConfigWithExecCredential w target tr) = Return (Some dump, None)"
      by simp
    from GetKubeConfigWithExecCredential_success_steps [OF this]
    obtain credentials cluster environment userinfo where steps:
      "fst (httpPostRequest w (IsStruct (Unmarshal_KubeExecCredential w)) (Resty target)
              (''/v0/credentials/'' @ HumanId target @ ''/k8s?type=execcredential'') None [])
         = Return (Some credentials, None)"
      "spec_Cluster (cred_Spec credentials) = Some cluster"
      "spec_cluster_CertificateAuthorityData cluster \<noteq> '''' \<or> spec_cluster_Server cluster \<noteq> ''''"
      "fst (GetDetails w target []) = Return (Some environment, None)"
      "KubernetesNamespace (Deployment environment) \<noteq> ''''"
      "FetchUserInfo w (TokenSet target) = Inr userinfo"
      by blast
    from GetKubeConfigWithExecCredential_assembles [OF steps refl, of tr] run steps(6)
    show "\<exists>new k userinfo.
         tr' = tr @ new
       \<and> calls new =
           [HttpCall MethodPost (''/v0/credentials/'' @ HumanId target @ ''/k8s?type=execcredential'') None,
            HttpCall MethodGet (''/v0/deployments/'' @ HumanId target) None,
            FetchUserInfoCall (AccessToken (TokenSet target)),
            MarshalCall k]
       \<and> dump = fst (yaml_Marshal w k)
       \<and> FetchUserInfo w (TokenSet target) = Inr userinfo
       \<and> Users k =
           [\<lparr> user_Name = Email userinfo,
              user_User =
                \<lparr> Token = '''',
                  Exec =
                    \<lparr> Command = ''metaplay'',
                      Args = [''environment'', ''get-kubernetes-execcredential'', ''--stack-api'',
                              StackApiBaseURL target, ''--environment'', HumanId target],
                      exec_ApiVersion = ''client.authentication.k8s.io/v1beta1'',
                      InteractiveMode = ''Never'' \<rparr> \<rparr> \<rparr>]"
      by fastforce
  qed
next
  show ?assembled
  proof (intro allI impI, elim conjE)
    fix credentials cluster environment userinfo
    assume steps:
      "fst (httpPostRequest w (IsStruct (Unmarshal_KubeExecCredential w)) (Resty target)
              (''/v0/credentials/'' @ HumanId target @ ''/k8s?type=execcredential'') None [])
         = Return (Some credentials, None)"
      "spec_Cluster (cred_Spec credentials) = Some cluster"
      "spec_cluster_CertificateAuthorityData cluster \<noteq> '''' \<or> spec_cluster_Server cluster \<noteq> ''''"
      "fst (GetDetails w target []) = Return (Some environment, None)"
      "KubernetesNamespace (Deployment environment) \<noteq> ''''"
      "FetchUserInfo w (TokenSet target) = Inr userinfo"
    from GetKubeConfigWithExecCredential_assembles [OF steps refl, of tr]
    show "\<exists>dump tr'. GetKubeConfigWithExecCredential w target tr = (Return (Some dump, None), tr')"
      by (cases "GetKubeConfigWithExecCredential w target tr") auto
  qed
qed

theorem GetKubeConfigWithExecCredential_exec_hook_witness:
  "GetKubeConfigWithExecCredential test_world test_target []
     = (Return (Some (fst (yaml_Marshal test_world test_document)), None),
        [Log ''debug'' (''Getting Kubernetes KubeConfig with execcredential from ''
                        @ ''https://infra.test/stackapi/v0/credentials/tiny-squids/k8s?type=execcredential...''),
         HttpCall ''POST'' ''/v0/credentials/tiny-squids/k8s?type=execcredential'' None,
         HttpCall ''GET'' ''/v0/deployments/tiny-squids'' None,
         FetchUserInfoCall ''token'',
         MarshalCall test_document])
   \<and> Users test_document =
       [\<lparr> user_Name = ''dev@test'',
          user_User =
            \<lparr> Token = '''',
              Exec =
                \<lparr> Command = ''metaplay'',
                  Args = [''environment'', ''get-kubernetes-execcredential'', ''--stack-api'',
                          ''https://infra.test/stackapi'', ''--environment'', ''tiny-squids''],
                  exec_ApiVersion = ''client.authentication.k8s.io/v1beta1'',
                  InteractiveMode = ''Never'' \<rparr> \<rparr> \<rparr>]"
proof -
  let ?path = "''/v0/credentials/'' @ HumanId test_target @ ''/k8s?type=execcredential''"
  let ?cluster = "\<lparr> spec_cluster_CertificateAuthorityData = ''CA'', spec_cluster_Server = ''https://k8s.test'' \<rparr>"
  let ?trace = "[Log ''debug'' (''Getting Kubernetes KubeConfig with execcredential from ''
                        @ ''https://infra.test/stackapi/v0/credentials/tiny-squids/k8s?type=execcredential...''),
         HttpCall ''POST'' ''/v0/credentials/tiny-squids/k8s?type=execcredential'' None,
         HttpCall ''GET'' ''/v0/deployments/tiny-squids'' None,
         FetchUserInfoCall ''token'',
         MarshalCall test_document]"
  have post: "fst (httpPostRequest test_world (IsStruct (Unmarshal_KubeExecCredential test_world))
                     (Resty test_target) ?path None [])
                = Return (Some (test_credential ''CA'' ''https://k8s.test''), None)"
    by (simp add: httpPostRequest_def httpRequest_def test_defs method_defs status_defs)
  have cluster: "spec_Cluster (cred_Spec (test_credential ''CA'' ''https://k8s.test'')) = Some ?cluster"
    by (simp add: test_credential_def)
  have details: "fst (GetDetails test_world test_target []) = Return (Some (test_details ''tiny-squids-ns''), None)"
    by (simp add: GetDetails_def httpGetRequest_def httpRequest_def test_defs method_defs status_defs)
  have namespace: "KubernetesNamespace (Deployment (test_details ''tiny-squids-ns'')) \<noteq> ''''"
    by (simp add: test_details_def)
  have lookup: "FetchUserInfo test_world (TokenSet test_target) = Inr \<lparr> Email = ''dev@test'' \<rparr>"
    by (simp add: test_world_def)
  have valid:
    "fst (httpPostRequest test_world (IsStruct (Unmarshal_KubeExecCredential test_world))
            (Resty test_target) ?path None [])
       = Return (Some (test_credential ''CA'' ''https://k8s.test''), None)
     \<and> spec_Cluster (cred_Spec (test_credential ''CA'' ''https://k8s.test'')) = Some ?cluster
     \<and> (spec_cluster_CertificateAuthorityData ?cluster \<noteq> '''' \<or> spec_cluster_Server ?cluster \<noteq> '''')
     \<and> fst (GetDetails test_world test_target []) = Return (Some (test_details ''tiny-squids-ns''), None)
     \<and> KubernetesNamespace (Deployment (test_details ''tiny-squids-ns'')) \<noteq> ''''
     \<and> FetchUserInfo test_world (TokenSet test_target) = Inr \<lparr> Email = ''dev@test'' \<rparr>"
    using post cluster details namespace lookup by simp
  note inst = GetKubeConfigWithExecCredential_exec_hook [of test_world test_target "[]"]
  from inst [THEN conjunct2, rule_format, OF valid]
  obtain dump tr' where
    run: "GetKubeConfigWithExecCredential test_world test_target [] = (Return (Some dump, None), tr')"
    by blast
  have events: "snd (GetKubeConfigWithExecCredential test_world test_target []) = ?trace"
    by (simp add: GetKubeConfigWithExecCredential_def GetDetails_def httpGetRequest_def
          httpPostRequest_def httpRequest_def test_defs test_document_def method_defs status_defs
          case_prod_beta Let_def)
  from inst [THEN conjunct1, rule_format, OF run]
  obtain new k userinfo where
    new: "tr' = [] @ new"
    and made: "calls new =
           [HttpCall MethodPost ?path None,
            HttpCall MethodGet (''/v0/deployments/'' @ HumanId test_target) None,
            FetchUserInfoCall (AccessToken (TokenSet test_target)),
            MarshalCall k]"
    and dump: "dump = fst (yaml_Marshal test_world k)"
    and identity: "FetchUserInfo test_world (TokenSet test_target) = Inr userinfo"
    and users: "Users k =
           [\<lparr> user_Name = Email userinfo,
              user_User =
                \<lparr> Token = '''',
                  Exec =
                    \<lparr> Command = ''metaplay'',
                      Args = [''environment'', ''get-kubernetes-execcredential'', ''--stack-api'',
                              StackApiBaseURL test_target, ''--environment'', HumanId test_target],
                      exec_ApiVersion = ''client.authentication.k8s.io/v1beta1'',
                      InteractiveMode = ''Never'' \<rparr> \<rparr> \<rparr>]"
    by blast
  from run events new have "new = ?trace"
    by simp
  with made have k: "k = test_document"
    by (simp add: calls_def)
  from identity lookup have userinfo: "userinfo = \<lparr> Email = ''dev@test'' \<rparr>"
    by simp
  from run events dump k have
    "GetKubeConfigWithExecCredential test_world test_target []
       = (Return (Some (fst (yaml_Marshal test_world test_document)), None), ?trace)"
    by (simp add: prod_eq_iff)
  moreover from users k userinfo have "Users test_document =
       [\<lparr> user_Name = ''dev@test'',
          user_User =
            \<lparr> Token = '''',
              Exec =
                \<lparr> Command = ''metaplay'',
                  Args = [''environment'', ''get-kubernetes-execcredential'', ''--stack-api'',
                          ''https://infra.test/stackapi'', ''--environment'', ''tiny-squids''],
                  exec_ApiVersion = ''client.authentication.k8s.io/v1beta1'',
                  InteractiveMode = ''Never'' \<rparr> \<rparr> \<rparr>]"
    by (simp add: test_target_def)
  ultimately show ?thesis
    by (intro conjI)
qed

subsection \<open>The test codec inverts itself\<close>

lemma leading_ones:
  "takeWhile (\<lambda>c. c = CHR ''1'') (replicate n (CHR ''1'') @ CHR ''0'' # text) = replicate n (CHR ''1'')"
  by (induction n) simp_all

lemma get_put_string [simp]: "get_string (put_string s @ rest) = Some (s, rest)"
  by (simp add: get_string_def put_string_def leading_ones)

lemma get_put_items:
  assumes "\<And>x rest. get (put x @ rest) = Some (x, rest)"
  shows "get_items (length xs) get (concat (map put xs) @ rest) = Some (xs, rest)"
  by (induction xs) (simp_all add: assms)

lemma get_put_list:
  assumes "\<And>x rest. get (put x @ rest) = Some (x, rest)"
  shows "get_list get (put_list put xs @ rest) = Some (xs, rest)"
  using get_put_items [of get put xs rest, OF assms]
  by (simp add: get_list_def put_list_def leading_ones)

lemma get_put_cluster [simp]: "get_cluster (put_cluster c @ rest) = Some (c, rest)"
  by (simp add: get_cluster_def put_cluster_def)

lemma get_put_context [simp]: "get_context (put_context c @ rest) = Some (c, rest)"
  by (simp add: get_context_def put_context_def)

lemma get_put_user [simp]: "get_user (put_user u @ rest) = Some (u, rest)"
  by (simp add: get_user_def put_user_def get_put_list)

lemma get_put_preference [simp]: "get_preference (put_preference p @ rest) = Some (p, rest)"
  by (simp add: get_preference_def put_preference_def)

lemma get_put_KubeConfig: "get_KubeConfig (put_KubeConfig k @ rest) = Some (k, rest)"
  by (simp add: get_KubeConfig_def put_KubeConfig_def get_put_list)

lemma test_codec_round_trip: "test_Unmarshal (fst (test_Marshal k)) = Some k"
  using get_put_KubeConfig [of k "[]"]
  by (simp add: test_Unmarshal_def test_Marshal_def)

text \<open>
  Claim C4. Every run of \<open>GetKubeConfigWithExecCredential\<close> that returns a kubeconfig has
  handed one document to the YAML encoder and returns the encoder's text for it. The document
  has one cluster, one context and one user. Its current context is the name of the context,
  the deployment's \<open>HumanId\<close>. The context names the cluster, whose name is the server URL
  of the payload, and the user, whose name is the email of the identity. With a YAML parser
  that inverts the encoder, parsing the returned text gives a document with these four names.
  A run returns a kubeconfig whenever the payload has a cluster with CA data or a server URL,
  the namespace is not empty and the identity is resolved.
\<close>

theorem GetKubeConfigWithExecCredential_document:
  "(\<forall>dump tr'.
      GetKubeConfigWithExecCredential w target tr = (Return (Some dump, None), tr') \<longrightarrow>
      (\<exists>new k credentials cluster environment userinfo.
         tr' = tr @ new
       \<and> calls new =
           [HttpCall MethodPost (''/v0/credentials/'' @ HumanId target @ ''/k8s?type=execcredential'') None,
            HttpCall MethodGet (''/v0/deployments/'' @ HumanId target) None,
            FetchUserInfoCall (AccessToken (TokenSet target)),
            MarshalCall k]
       \<and> dump = fst (yaml_Marshal w k)
       \<and> fst (httpPostRequest w (IsStruct (Unmarshal_KubeExecCredential w)) (Resty target)
                (''/v0/credentials/'' @ HumanId target @ ''/k8s?type=execcredential'') None [])
           = Return (Some credentials, None)
       \<and> spec_Cluster (cred_Spec credentials) = Some cluster
       \<and> fst (GetDetails w target []) = Return (Some environment, None)
       \<and> FetchUserInfo w (TokenSet target) = Inr userinfo
       \<and> Clusters k =
           [\<lparr> cluster_Cluster =
                \<lparr> CertificateAuthorityData =
                    base64_EncodeToString w (spec_cluster_CertificateAuthorityData cluster),
                  Server = spec_cluster_Server cluster \<rparr>,
              cluster_Name = spec_cluster_Server cluster \<rparr>]
       \<and> Contexts k =
           [\<lparr> context_Context =
                \<lparr> context_data_Cluster = spec_cluster_Server cluster,
                  context_data_User = Email userinfo,
                  context_data_Namespace = KubernetesNamespace (Deployment environment) \<rparr>,
              context_Name = HumanId target \<rparr>]
       \<and> map user_Name (Users k) = [Email userinfo]
       \<and> CurrentContext k = HumanId target
       \<and> ((\<forall>d. yaml_Unmarshal (fst (yaml_Marshal w d)) = Some d) \<longrightarrow>
            (\<exists>parsed. yaml_Unmarshal dump = Some parsed
               \<and> CurrentContext parsed = HumanId target
               \<and> map context_Name (Contexts parsed) = [HumanId target]
               \<and> map (\<lambda>c. context_data_Cluster (context_Context c)) (Contexts parsed)
                   = [spec_cluster_Server cluster]
               \<and> map cluster_Name (Clusters parsed) = [spec_cluster_Server cluster]
               \<and> map (\<lambda>c. context_data_User (context_Context c)) (Contexts parsed)
                   = [Email userinfo]
               \<and> map user_Name (Users parsed) = [Email userinfo]))))
   \<and> (\<forall>credentials cluster environment userinfo.
         fst (httpPostRequest w (IsStruct (Unmarshal_KubeExecCredential w)) (Resty target)
                (''/v0/credentials/'' @ HumanId target @ ''/k8s?type=execcredential'') None [])
           = Return (Some credentials, None)
       \<and> spec_Cluster (cred_Spec credentials) = Some cluster
       \<and> (spec_cluster_CertificateAuthorityData cluster \<noteq> '''' \<or> spec_cluster_Server cluster \<noteq> '''')
       \<and> fst (GetDetails w target []) = Return (Some environment, None)
       \<and> KubernetesNamespace (Deployment environment) \<noteq> ''''
       \<and> FetchUserInfo w (TokenSet target) = Inr userinfo
       \<longrightarrow> (\<exists>dump tr'. GetKubeConfigWithExecCredential w target tr = (Return (Some dump, None), tr')))"
  (is "?document \<and> ?assembled")
proof
  show ?document
  proof (intro allI impI)
    fix dump tr'
    assume run: "GetKubeConfigWithExecCredential w target tr = (Return (Some dump, None), tr')"
    then have "fst (GetKubeConfigWithExecCredential w target tr) = Return (Some dump, None)"
      by simp
    from GetKubeConfigWithExecCredential_success_steps [OF this]
    obtain credentials cluster environment userinfo where steps:
      "fst (httpPostRequest w (IsStruct (Unmarshal_KubeExecCredential w)) (Resty target)
              (''/v0/credentials/'' @ HumanId target @ ''/k8s?type=execcredential'') None [])
         = Return (Some credentials, None)"
      "spec_Cluster (cred_Spec credentials) = Some cluster"
      "spec_cluster_CertificateAuthorityData cluster \<noteq> '''' \<or> spec_cluster_Server cluster \<noteq> ''''"
      "fst (GetDetails w target []) = Return (Some environment, None)"
      "KubernetesNamespace (Deployment environment) \<noteq> ''''"
      "FetchUserInfo w (TokenSet target) = Inr userinfo"
      by blast
    define k where "k =
            \<lparr> ApiVersion = ''v1'',
              Clusters =
                [\<lparr> cluster_Cluster =
                     \<lparr> CertificateAuthorityData =
                         base64_EncodeToString w (spec_cluster_CertificateAuthorityData cluster),
                       Server = spec_cluster_Server cluster \<rparr>,
                   cluster_Name = spec_cluster_Server cluster \<rparr>],
              Contexts =
                [\<lparr> context_Context =
                     \<lparr> context_data_Cluster = spec_cluster_Server cluster,
                       context_data_User = Email userinfo,
                       context_data_Namespace = KubernetesNamespace (Deployment environment) \<rparr>,
                   context_Name = HumanId target \<rparr>],
              CurrentContext = HumanId target,
              Kind = ''Config'',
              Preferences = [],
              Users =
                [\<lparr> user_Name = Email userinfo,
                   user_User =
                     \<lparr> Token = '''',
                       Exec =
                         \<lparr> Command = ''metaplay'',
                           Args =
                             [''environment'',
                              ''get-kubernetes-execcredential'',
                              ''--stack-api'',
                              StackApiBaseURL target,
                              ''--environment'',
                              HumanId target],
                           exec_ApiVersion = ''client.authentication.k8s.io/v1beta1'',
                           InteractiveMode = ''Never'' \<rparr> \<rparr> \<rparr>] \<rparr>"
    note assembled = GetKubeConfigWithExecCredential_assembles [OF steps k_def, of tr]
    from assembled run have encoded: "dump = fst (yaml_Marshal w k)"
      by simp
    from assembled run obtain new where made:
      "tr' = tr @ new"
      "calls new =
           [HttpCall MethodPost (''/v0/credentials/'' @ HumanId target @ ''/k8s?type=execcredential'') None,
            HttpCall MethodGet (''/v0/deployments/'' @ HumanId target) None,
            FetchUserInfoCall (AccessToken (TokenSet target)),
            MarshalCall k]"
      by auto
    have fields:
      "Clusters k =
           [\<lparr> cluster_Cluster =
                \<lparr> CertificateAuthorityData =
                    base64_EncodeToString w (spec_cluster_CertificateAuthorityData cluster),
                  Server = spec_cluster_Server cluster \<rparr>,
              cluster_Name = spec_cluster_Server cluster \<rparr>]"
      "Contexts k =
           [\<lparr> context_Context =
                \<lparr> context_data_Cluster = spec_cluster_Server cluster,
                  context_data_User = Email userinfo,
                  context_data_Namespace = KubernetesNamespace (Deployment environment) \<rparr>,
              context_Name = HumanId target \<rparr>]"
      "map user_Name (Users k) = [Email userinfo]"
      "CurrentContext k = HumanId target"
      by (simp_all add: k_def)
    have parsed: "(\<forall>d. yaml_Unmarshal (fst (yaml_Marshal w d)) = Some d) \<longrightarrow>
            (\<exists>parsed. yaml_Unmarshal dump = Some parsed
               \<and> CurrentContext parsed = HumanId target
               \<and> map context_Name (Contexts parsed) = [HumanId target]
               \<and> map (\<lambda>c. context_data_Cluster (context_Context c)) (Contexts parsed)
                   = [spec_cluster_Server cluster]
               \<and> map cluster_Name (Clusters parsed) = [spec_cluster_Server cluster]
               \<and> map (\<lambda>c. context_data_User (context_Context c)) (Contexts parsed)
                   = [Email userinfo]
               \<and> map user_Name (Users parsed) = [Email userinfo])"
    proof
      assume "\<forall>d. yaml_Unmarshal (fst (yaml_Marshal w d)) = Some d"
      then have "yaml_Unmarshal dump = Some k"
        using encoded by simp
      with fields show "\<exists>parsed. yaml_Unmarshal dump = Some parsed
               \<and> CurrentContext parsed = HumanId target
               \<and> map context_Name (Contexts parsed) = [HumanId target]
               \<and> map (\<lambda>c. context_data_Cluster (context_Context c)) (Contexts parsed)
                   = [spec_cluster_Server cluster]
               \<and> map cluster_Name (Clusters parsed) = [spec_cluster_Server cluster]
               \<and> map (\<lambda>c. context_data_User (context_Context c)) (Contexts parsed)
                   = [Email userinfo]
               \<and> map user_Name (Users parsed) = [Email userinfo]"
        by simp
    qed
    from made encoded steps(1,2,4,6) fields parsed
    show "\<exists>new k credentials cluster environment userinfo.
         tr' = tr @ new
       \<and> calls new =
           [HttpCall MethodPost (''/v0/credentials/'' @ HumanId target @ ''/k8s?type=execcredential'') None,
            HttpCall MethodGet (''/v0/deployments/'' @ HumanId target) None,
            FetchUserInfoCall (AccessToken (TokenSet target)),
            MarshalCall k]
       \<and> dump = fst (yaml_Marshal w k)
       \<and> fst (httpPostRequest w (IsStruct (Unmarshal_KubeExecCredential w)) (Resty target)
                (''/v0/credentials/'' @ HumanId target @ ''/k8s?type=execcredential'') None [])
           = Return (Some credentials, None)
       \<and> spec_Cluster (cred_Spec credentials) = Some cluster
       \<and> fst (GetDetails w target []) = Return (Some environment, None)
       \<and> FetchUserInfo w (TokenSet target) = Inr userinfo
       \<and> Clusters k =
           [\<lparr> cluster_Cluster =
                \<lparr> CertificateAuthorityData =
                    base64_EncodeToString w (spec_cluster_CertificateAuthorityData cluster),
                  Server = spec_cluster_Server cluster \<rparr>,
              cluster_Name = spec_cluster_Server cluster \<rparr>]
       \<and> Contexts k =
           [\<lparr> context_Context =
                \<lparr> context_data_Cluster = spec_cluster_Server cluster,
                  context_data_User = Email userinfo,
                  context_data_Namespace = KubernetesNamespace (Deployment environment) \<rparr>,
              context_Name = HumanId target \<rparr>]
       \<and> map user_Name (Users k) = [Email userinfo]
       \<and> CurrentContext k = HumanId target
       \<and> ((\<forall>d. yaml_Unmarshal (fst (yaml_Marshal w d)) = Some d) \<longrightarrow>
            (\<exists>parsed. yaml_Unmarshal dump = Some parsed
               \<and> CurrentContext parsed = HumanId target
               \<and> map context_Name (Contexts parsed) = [HumanId target]
               \<and> map (\<lambda>c. context_data_Cluster (context_Context c)) (Contexts parsed)
                   = [spec_cluster_Server cluster]
               \<and> map cluster_Name (Clusters parsed) = [spec_cluster_Server cluster]
               \<and> map (\<lambda>c. context_data_User (context_Context c)) (Contexts parsed)
                   = [Email userinfo]
               \<and> map user_Name (Users parsed) = [Email userinfo]))"
      by (intro exI conjI) assumption+
  qed
next
  show ?assembled
  proof (intro allI impI, elim conjE)
    fix credentials cluster environment userinfo
    assume steps:
      "fst (httpPostRequest w (IsStruct (Unmarshal_KubeExecCredential w)) (Resty target)
              (''/v0/credentials/'' @ HumanId target @ ''/k8s?type=execcredential'') None [])
         = Return (Some credentials, None)"
      "spec_Cluster (cred_Spec credentials) = Some cluster"
      "spec_cluster_CertificateAuthorityData cluster \<noteq> '''' \<or> spec_cluster_Server cluster \<noteq> ''''"
      "fst (GetDetails w target []) = Return (Some environment, None)"
      "KubernetesNamespace (Deployment environment) \<noteq> ''''"
      "FetchUserInfo w (TokenSet target) = Inr userinfo"
    from GetKubeConfigWithExecCredential_assembles [OF steps refl, of tr]
    show "\<exists>dump tr'. GetKubeConfigWithExecCredential w target tr = (Return (Some dump, None), tr')"
      by (cases "GetKubeConfigWithExecCredential w target tr") auto
  qed
qed

theorem GetKubeConfigWithExecCredential_document_witness:
  "GetKubeConfigWithExecCredential test_world test_target []
     = (Return (Some (put_KubeConfig test_document), None),
        [Log ''debug'' (''Getting Kubernetes KubeConfig with execcredential from ''
                        @ ''https://infra.test/stackapi/v0/credentials/tiny-squids/k8s?type=execcredential...''),
         HttpCall ''POST'' ''/v0/credentials/tiny-squids/k8s?type=execcredential'' None,
         HttpCall ''GET'' ''/v0/deployments/tiny-squids'' None,
         FetchUserInfoCall ''token'',
         MarshalCall test_document])
   \<and> (\<exists>parsed. test_Unmarshal (put_KubeConfig test_document) = Some parsed
         \<and> CurrentContext parsed = ''tiny-squids''
         \<and> map context_Name (Contexts parsed) = [''tiny-squids'']
         \<and> map (\<lambda>c. context_data_Cluster (context_Context c)) (Contexts parsed) = [''https://k8s.test'']
         \<and> map cluster_Name (Clusters parsed) = [''https://k8s.test'']
         \<and> map (\<lambda>c. context_data_User (context_Context c)) (Contexts parsed) = [''dev@test'']
         \<and> map user_Name (Users parsed) = [''dev@test''])"
proof -
  let ?path = "''/v0/credentials/'' @ HumanId test_target @ ''/k8s?type=execcredential''"
  let ?cluster = "\<lparr> spec_cluster_CertificateAuthorityData = ''CA'', spec_cluster_Server = ''https://k8s.test'' \<rparr>"
  let ?trace = "[Log ''debug'' (''Getting Kubernetes KubeConfig with execcredential from ''
                        @ ''https://infra.test/stackapi/v0/credentials/tiny-squids/k8s?type=execcredential...''),
         HttpCall ''POST'' ''/v0/credentials/tiny-squids/k8s?type=execcredential'' None,
         HttpCall ''GET'' ''/v0/deployments/tiny-squids'' None,
         FetchUserInfoCall ''token'',
         MarshalCall test_document]"
  have post: "fst (httpPostRequest test_world (IsStruct (Unmarshal_KubeExecCredential test_world))
                     (Resty test_target) ?path None [])
                = Return (Some (test_credential ''CA'' ''https://k8s.test''), None)"
    by (simp add: httpPostRequest_def httpRequest_def test_defs method_defs status_defs)
  have cluster: "spec_Cluster (cred_Spec (test_credential ''CA'' ''https://k8s.test'')) = Some ?cluster"
    by (simp add: test_credential_def)
  have details: "fst (GetDetails test_world test_target []) = Return (Some (test_details ''tiny-squids-ns''), None)"
    by (simp add: GetDetails_def httpGetRequest_def httpRequest_def test_defs method_defs status_defs)
  have namespace: "KubernetesNamespace (Deployment (test_details ''tiny-squids-ns'')) \<noteq> ''''"
    by (simp add: test_details_def)
  have lookup: "FetchUserInfo test_world (TokenSet test_target) = Inr \<lparr> Email = ''dev@test'' \<rparr>"
    by (simp add: test_world_def)
  have encoder: "yaml_Marshal test_world = test_Marshal"
    by (simp add: test_world_def)
  have law: "\<forall>d. test_Unmarshal (fst (yaml_Marshal test_world d)) = Some d"
    by (simp add: encoder test_codec_round_trip)
  have valid:
    "fst (httpPostRequest test_world (IsStruct (Unmarshal_KubeExecCredential test_world))
            (Resty test_target) ?path None [])
       = Return (Some (test_credential ''CA'' ''https://k8s.test''), None)
     \<and> spec_Cluster (cred_Spec (test_credential ''CA'' ''https://k8s.test'')) = Some ?cluster
     \<and> (spec_cluster_CertificateAuthorityData ?cluster \<noteq> '''' \<or> spec_cluster_Server ?cluster \<noteq> '''')
     \<and> fst (GetDetails test_world test_target []) = Return (Some (test_details ''tiny-squids-ns''), None)
     \<and> KubernetesNamespace (Deployment (test_details ''tiny-squids-ns'')) \<noteq> ''''
     \<and> FetchUserInfo test_world (TokenSet test_target) = Inr \<lparr> Email = ''dev@test'' \<rparr>"
    using post cluster details namespace lookup by simp
  note inst = GetKubeConfigWithExecCredential_document
                [where w = test_world and target = test_target and tr = "[]"
                   and yaml_Unmarshal = test_Unmarshal]
  from inst [THEN conjunct2, rule_format, OF valid]
  obtain dump tr' where
    run: "GetKubeConfigWithExecCredential test_world test_target [] = (Return (Some dump, None), tr')"
    by blast
  have events: "snd (GetKubeConfigWithExecCredential test_world test_target []) = ?trace"
    by (simp add: GetKubeConfigWithExecCredential_def GetDetails_def httpGetRequest_def
          httpPostRequest_def httpRequest_def test_defs test_document_def method_defs status_defs
          case_prod_beta Let_def)
  from inst [THEN conjunct1, rule_format, OF run]
  obtain new k credentials cluster environment userinfo where
    new: "tr' = [] @ new"
    and made: "calls new =
           [HttpCall MethodPost ?path None,
            HttpCall MethodGet (''/v0/deployments/'' @ HumanId test_target) None,
            FetchUserInfoCall (AccessToken (TokenSet test_target)),
            MarshalCall k]"
    and dump: "dump = fst (yaml_Marshal test_world k)"
    and payload: "fst (httpPostRequest test_world (IsStruct (Unmarshal_KubeExecCredential test_world))
                         (Resty test_target) ?path None [])
                    = Return (Some credentials, None)"
      "spec_Cluster (cred_Spec credentials) = Some cluster"
    and identity: "FetchUserInfo test_world (TokenSet test_target) = Inr userinfo"
    and round_trip: "(\<forall>d. test_Unmarshal (fst (yaml_Marshal test_world d)) = Some d) \<longrightarrow>
            (\<exists>parsed. test_Unmarshal dump = Some parsed
               \<and> CurrentContext parsed = HumanId test_target
               \<and> map context_Name (Contexts parsed) = [HumanId test_target]
               \<and> map (\<lambda>c. context_data_Cluster (context_Context c)) (Contexts parsed)
                   = [spec_cluster_Server cluster]
               \<and> map cluster_Name (Clusters parsed) = [spec_cluster_Server cluster]
               \<and> map (\<lambda>c. context_data_User (context_Context c)) (Contexts parsed)
                   = [Email userinfo]
               \<and> map user_Name (Users parsed) = [Email userinfo])"
    by (elim exE conjE) (rule that; assumption)
  from run events new have "new = ?trace"
    by simp
  with made have k: "k = test_document"
    by (simp add: calls_def)
  from payload post cluster have c: "cluster = ?cluster"
    by simp
  from identity lookup have u: "userinfo = \<lparr> Email = ''dev@test'' \<rparr>"
    by simp
  from dump k encoder have encoded: "dump = put_KubeConfig test_document"
    by (simp add: test_Marshal_def)
  from run events encoded have
    "GetKubeConfigWithExecCredential test_world test_target []
       = (Return (Some (put_KubeConfig test_document), None), ?trace)"
    by (simp add: prod_eq_iff)
  moreover from round_trip law encoded c u have
    "\<exists>parsed. test_Unmarshal (put_KubeConfig test_document) = Some parsed
         \<and> CurrentContext parsed = ''tiny-squids''
         \<and> map context_Name (Contexts parsed) = [''tiny-squids'']
         \<and> map (\<lambda>c. context_data_Cluster (context_Context c)) (Contexts parsed) = [''https://k8s.test'']
         \<and> map cluster_Name (Clusters parsed) = [''https://k8s.test'']
         \<and> map (\<lambda>c. context_data_User (context_Context c)) (Contexts parsed) = [''dev@test'']
         \<and> map user_Name (Users parsed) = [''dev@test'']"
    by (simp add: test_target_def)
  ultimately show ?thesis
    by (intro conjI)
qed

section \<open>Decode failures and accepted methods\<close>

text \<open>
  Claim C8, as stated: when the body of a 2xx response to a structured request fails JSON
  parsing, the error returned is a \<^verbatim>\<open>DecodeError\<close> carrying the path and the cause, not
  the parse error itself. It fails: for the truncated details of \<open>tiny-squids\<close>, both
  executors return the decoder's error as it is.
\<close>

theorem decode_failure_counterexample:
  "fst (httpRequest broken_world (IsStruct (Unmarshal_EnvironmentDetails broken_world)) test_client
          ''GET'' ''/v0/deployments/tiny-squids'' None [])
     = Return (None, Some (LibError ''unexpected end of JSON input''))
   \<and> fst (Request broken_world (IsStruct decode_details) zero_EnvironmentDetails test_metahttp_client
          ''GET'' ''/v0/deployments/tiny-squids'' None [])
     = Return (zero_EnvironmentDetails, Some (LibError ''unexpected end of JSON input''))
   \<and> \<not> is_DecodeError ''/v0/deployments/tiny-squids'' (LibError ''unexpected end of JSON input'')
          (LibError ''unexpected end of JSON input'')"
  by (simp add: httpRequest_def Request_def broken_world_def test_defs decode_details_def
        method_defs status_defs is_DecodeError_def)

text \<open>
  Claim C8, amended: when the body of a 2xx response to a structured request fails JSON
  parsing, \<open>httpRequest\<close> (for GET and POST) and \<open>Request\<close> (for GET, POST and PUT) return
  the decoder's own error, unwrapped: its message is the decoder's message, it has no cause,
  and it is no \<^verbatim>\<open>DecodeError\<close> of any path. The malformed body is written to the error log,
  in the line \<^verbatim>\<open>Failed to unmarshal response: <error>, raw body: <body>\<close>, and the code
  adds nothing of it to the returned error.
\<close>

theorem decode_failure_returns_decoder_error:
  assumes "resty_execute w rc method path sentBody = Inr response"
    and "sentBody = (if method = MethodGet then None else body)"
    and "200 \<le> StatusCode response" and "StatusCode response < 300"
  shows "(\<forall>Unmarshal left err.
            (method = MethodGet \<or> method = MethodPost) \<and> Unmarshal (Body response) = (left, Some err) \<longrightarrow>
            httpRequest w (IsStruct Unmarshal) rc method path body tr
              = (Return (None, Some (LibError err)),
                 tr @ [HttpCall method path sentBody,
                       Log ''error'' (''Failed to unmarshal response: '' @ err
                                       @ '', raw body: '' @ Body response)]))
       \<and> (\<forall>Unmarshal left err c zero.
            (method = MethodGet \<or> method = MethodPost \<or> method = MethodPut) \<and> client_Resty c = rc
            \<and> Unmarshal (Body response) = (left, Some err) \<longrightarrow>
            Request w (IsStruct Unmarshal) zero c method path body tr
              = (Return (left, Some (LibError err)),
                 tr @ [HttpCall method path sentBody,
                       Log ''error'' (''Failed to unmarshal response: '' @ err
                                       @ '', raw body: '' @ Body response)]))
       \<and> (\<forall>err p cause. Error (LibError err) = err \<and> Unwrap (LibError err) = None
            \<and> \<not> is_DecodeError p cause (LibError err))"
  using assms
  by (auto simp add: httpRequest_def Request_def method_defs status_defs is_DecodeError_def)

theorem decode_failure_returns_decoder_error_witness:
  "httpRequest broken_world (IsStruct (Unmarshal_EnvironmentDetails broken_world)) test_client
          ''GET'' ''/v0/deployments/tiny-squids'' None []
     = (Return (None, Some (LibError ''unexpected end of JSON input'')),
        [HttpCall ''GET'' ''/v0/deployments/tiny-squids'' None,
         Log ''error'' ''Failed to unmarshal response: unexpected end of JSON input, raw body: {truncated''])
   \<and> Request broken_world (IsStruct decode_details) zero_EnvironmentDetails test_metahttp_client
          ''GET'' ''/v0/deployments/tiny-squids'' None []
     = (Return (zero_EnvironmentDetails, Some (LibError ''unexpected end of JSON input'')),
        [HttpCall ''GET'' ''/v0/deployments/tiny-squids'' None,
         Log ''error'' ''Failed to unmarshal response: unexpected end of JSON input, raw body: {truncated''])"
proof -
  let ?response = "\<lparr> StatusCode = 200, Body = ''{truncated'', String = ''{truncated'' \<rparr>"
  have sent: "resty_execute broken_world test_client ''GET'' ''/v0/deployments/tiny-squids'' None
                = Inr ?response"
    by (simp add: broken_world_def test_defs)
  have body: "None = (if ''GET'' = MethodGet then None else (None :: string option))"
    by (simp add: method_defs)
  have ok: "200 \<le> StatusCode ?response" "StatusCode ?response < 300"
    by simp_all
  note inst = decode_failure_returns_decoder_error [OF sent body ok, of "[]"]
  note envapi = inst [THEN conjunct1, rule_format,
                      where Unmarshal = "Unmarshal_EnvironmentDetails broken_world" and left = None
                        and err = "''unexpected end of JSON input''"]
  note metahttp = inst [THEN conjunct2, THEN conjunct1, rule_format,
                        where Unmarshal = decode_details and left = zero_EnvironmentDetails
                          and err = "''unexpected end of JSON input''"
                          and c = test_metahttp_client and zero = zero_EnvironmentDetails]
  have d1: "Unmarshal_EnvironmentDetails broken_world (Body ?response)
              = (None, Some ''unexpected end of JSON input'')"
    by (simp add: broken_world_def test_defs)
  have d2: "decode_details (Body ?response)
              = (zero_EnvironmentDetails, Some ''unexpected end of JSON input'')"
    by (simp add: decode_details_def)
  have c: "client_Resty test_metahttp_client = test_client"
    by (simp add: test_metahttp_client_def)
  have m: "''GET'' = MethodGet"
    by (simp add: method_defs)
  from envapi [OF conjI [OF disjI1 [OF m] d1]] have
    "httpRequest broken_world (IsStruct (Unmarshal_EnvironmentDetails broken_world)) test_client
          ''GET'' ''/v0/deployments/tiny-squids'' None []
     = (Return (None, Some (LibError ''unexpected end of JSON input'')),
        [HttpCall ''GET'' ''/v0/deployments/tiny-squids'' None,
         Log ''error'' ''Failed to unmarshal response: unexpected end of JSON input, raw body: {truncated''])"
    by simp
  moreover
  from metahttp [OF conjI [OF disjI1 [OF m] conjI [OF c d2]]] have
    "Request broken_world (IsStruct decode_details) zero_EnvironmentDetails test_metahttp_client
          ''GET'' ''/v0/deployments/tiny-squids'' None []
     = (Return (zero_EnvironmentDetails, Some (LibError ''unexpected end of JSON input'')),
        [HttpCall ''GET'' ''/v0/deployments/tiny-squids'' None,
         Log ''error'' ''Failed to unmarshal response: unexpected end of JSON input, raw body: {truncated''])"
    by simp
  ultimately show ?thesis by simp
qed

text \<open>
  Claim C9, as stated: the request executor accepts GET, POST and PUT, and its
  unimplemented-method branch is unreachable for these verbs. It fails for the executor of
  package envapi: \<open>httpRequest\<close> has no case for PUT, and a PUT request panics there
  without being sent.
\<close>

theorem httpRequest_put_counterexample:
  "httpRequest test_world (IsStruct (Unmarshal_EnvironmentDetails test_world)) test_client
     ''PUT'' ''/v0/deployments/tiny-squids'' (Some ''body'') []
   = (Panic ''HTTP request method not implemented'',
      [Log ''panic'' ''HTTP request method not implemented''])"
  by (simp add: httpRequest_def method_defs)

text \<open>
  Claim C9, amended: \<open>Request\<close> of package metahttp accepts GET, POST and PUT: for each of
  them it sends the request and returns a value with or without an error, and does not
  panic. \<open>httpRequest\<close> of package envapi accepts GET and POST in the same way, and for
  every other verb, PUT among them, it reaches the unimplemented-method branch and panics
  without sending a request.
\<close>

theorem executors_accepted_methods:
  "(verb = MethodGet \<or> verb = MethodPost \<or> verb = MethodPut \<longrightarrow>
      (\<exists>v e sentBody logs.
         Request w T zero c verb url body tr
           = (Return (v, e), tr @ HttpCall verb url sentBody # logs)))
   \<and> (verb = MethodGet \<or> verb = MethodPost \<longrightarrow>
      (\<exists>v e sentBody logs.
         httpRequest w T' rc verb url body tr
           = (Return (v, e), tr @ HttpCall verb url sentBody # logs)))
   \<and> (verb \<noteq> MethodGet \<and> verb \<noteq> MethodPost \<longrightarrow>
      httpRequest w T' rc verb url body tr
        = (Panic ''HTTP request method not implemented'',
           tr @ [Log ''panic'' ''HTTP request method not implemented'']))
   \<and> MethodPut \<noteq> MethodGet \<and> MethodPut \<noteq> MethodPost"
proof (intro conjI impI)
  assume "verb = MethodGet \<or> verb = MethodPost \<or> verb = MethodPut"
  then show "\<exists>v e sentBody logs.
         Request w T zero c verb url body tr
           = (Return (v, e), tr @ HttpCall verb url sentBody # logs)"
    by (elim disjE)
       (simp_all add: Request_def method_defs Let_def
          split: sum.splits TResponse.splits prod.splits option.splits)
next
  assume "verb = MethodGet \<or> verb = MethodPost"
  then show "\<exists>v e sentBody logs.
         httpRequest w T' rc verb url body tr
           = (Return (v, e), tr @ HttpCall verb url sentBody # logs)"
    by (elim disjE)
       (simp_all add: httpRequest_def method_defs Let_def
          split: sum.splits TResponse.splits prod.splits option.splits)
next
  assume "verb \<noteq> MethodGet \<and> verb \<noteq> MethodPost"
  then show "httpRequest w T' rc verb url body tr
        = (Panic ''HTTP request method not implemented'',
           tr @ [Log ''panic'' ''HTTP request method not implemented''])"
    by (simp add: httpRequest_def)
next
  show "MethodPut \<noteq> MethodGet" by (simp add: method_defs)
  show "MethodPut \<noteq> MethodPost" by (simp add: method_defs)
qed

theorem executors_accepted_methods_witness:
  "(\<exists>v e sentBody logs.
      Request test_world (IsStruct decode_details) zero_EnvironmentDetails test_metahttp_client
        ''PUT'' ''/v0/deployments/tiny-squids'' (Some ''body'') []
        = (Return (v, e), [] @ HttpCall ''PUT'' ''/v0/deployments/tiny-squids'' sentBody # logs))
   \<and> (\<exists>v e sentBody logs.
      httpRequest test_world (IsStruct (Unmarshal_EnvironmentDetails test_world)) test_client
        ''GET'' ''/v0/deployments/tiny-squids'' None []
        = (Return (v, e), [] @ HttpCall ''GET'' ''/v0/deployments/tiny-squids'' sentBody # logs))
   \<and> httpRequest test_world (IsStruct (Unmarshal_EnvironmentDetails test_world)) test_client
        ''PUT'' ''/v0/deployments/tiny-squids'' (Some ''body'') []
        = (Panic ''HTTP request method not implemented'',
           [] @ [Log ''panic'' ''HTTP request method not implemented''])"
proof -
  have put: "''PUT'' = MethodGet \<or> ''PUT'' = MethodPost \<or> ''PUT'' = MethodPut"
    by (simp add: method_defs)
  have get: "''GET'' = MethodGet \<or> ''GET'' = MethodPost"
    by (simp add: method_defs)
  have other: "''PUT'' \<noteq> MethodGet \<and> ''PUT'' \<noteq> MethodPost"
    by (simp add: method_defs)
  note a = executors_accepted_methods
             [where verb = "''PUT''" and w = test_world and T = "IsStruct decode_details"
                and zero = zero_EnvironmentDetails and c = test_metahttp_client
                and url = "''/v0/deployments/tiny-squids''" and body = "Some ''body''" and tr = "[]"
                and T' = "IsStruct (Unmarshal_EnvironmentDetails test_world)" and rc = test_client]
  note b = executors_accepted_methods
             [where verb = "''GET''" and w = test_world and T = "IsStruct decode_details"
                and zero = zero_EnvironmentDetails and c = test_metahttp_client
                and url = "''/v0/deployments/tiny-squids''" and body = None and tr = "[]"
                and T' = "IsStruct (Unmarshal_EnvironmentDetails test_world)" and rc = test_client]
  from a [THEN conjunct1, THEN mp, OF put]
       b [THEN conjunct2, THEN conjunct1, THEN mp, OF get]
       a [THEN conjunct2, THEN conjunct2, THEN conjunct1, THEN mp, OF other]
  show ?thesis by (intro conjI)
qed

end
